theory Spec2Isabelle
  imports Complex_Main "HOL-Library.Multiset" "HOL-Library.Sublist"
begin

section \<open>JavaScript numbers\<close>

text \<open>
  The avatar pipeline computes with JavaScript numbers. A number is modelled as a finite
  real, one of the two infinities, or NaN. The special values follow IEEE-754 as
  JavaScript sees it (NaN is absorbing, every comparison with NaN is false,
  \<open>Infinity - Infinity\<close> and \<open>0 * Infinity\<close> are NaN, a finite non-zero number divided by
  zero is an infinity). Arithmetic on finite values is exact: rounding to binary64 or to
  the binary32 cells of a \<open>Float32Array\<close>, overflow of finite operands and the sign of
  zero are not modelled.
\<close>

datatype jsnum = Fin real | PInf | NInf | NaN

fun isNaN :: "jsnum \<Rightarrow> bool" where
  "isNaN NaN = True"
| "isNaN _ = False"

fun isFinite :: "jsnum \<Rightarrow> bool" where
  "isFinite (Fin _) = True"
| "isFinite _ = False"

fun jneg :: "jsnum \<Rightarrow> jsnum" where
  "jneg (Fin a) = Fin (- a)"
| "jneg PInf = NInf"
| "jneg NInf = PInf"
| "jneg NaN = NaN"

fun jadd :: "jsnum \<Rightarrow> jsnum \<Rightarrow> jsnum" where
  "jadd (Fin a) (Fin b) = Fin (a + b)"
| "jadd NaN _ = NaN"
| "jadd _ NaN = NaN"
| "jadd PInf NInf = NaN"
| "jadd NInf PInf = NaN"
| "jadd PInf _ = PInf"
| "jadd _ PInf = PInf"
| "jadd NInf _ = NInf"
| "jadd _ NInf = NInf"

definition jsub :: "jsnum \<Rightarrow> jsnum \<Rightarrow> jsnum" where
  "jsub a b = jadd a (jneg b)"

text \<open>The sign of an infinity times, or divided by, a finite number.\<close>

definition signed_inf :: "bool \<Rightarrow> jsnum" where
  "signed_inf positive = (if positive then PInf else NInf)"

fun jmul :: "jsnum \<Rightarrow> jsnum \<Rightarrow> jsnum" where
  "jmul (Fin a) (Fin b) = Fin (a * b)"
| "jmul NaN _ = NaN"
| "jmul _ NaN = NaN"
| "jmul PInf (Fin b) = (if b = 0 then NaN else signed_inf (0 < b))"
| "jmul NInf (Fin b) = (if b = 0 then NaN else signed_inf (b < 0))"
| "jmul (Fin a) PInf = (if a = 0 then NaN else signed_inf (0 < a))"
| "jmul (Fin a) NInf = (if a = 0 then NaN else signed_inf (a < 0))"
| "jmul PInf PInf = PInf"
| "jmul NInf NInf = PInf"
| "jmul PInf NInf = NInf"
| "jmul NInf PInf = NInf"

fun jdiv :: "jsnum \<Rightarrow> jsnum \<Rightarrow> jsnum" where
  "jdiv (Fin a) (Fin b) =
     (if b = 0 then (if a = 0 then NaN else signed_inf (0 < a)) else Fin (a / b))"
| "jdiv NaN _ = NaN"
| "jdiv _ NaN = NaN"
| "jdiv (Fin a) PInf = Fin 0"
| "jdiv (Fin a) NInf = Fin 0"
| "jdiv PInf (Fin b) = signed_inf (0 \<le> b)"
| "jdiv NInf (Fin b) = signed_inf (b < 0)"
| "jdiv PInf PInf = NaN"
| "jdiv PInf NInf = NaN"
| "jdiv NInf PInf = NaN"
| "jdiv NInf NInf = NaN"

text \<open>\<open>a < b\<close> and \<open>a <= b\<close>; \<open>a > b\<close> is \<open>jlt b a\<close> and \<open>a >= b\<close> is \<open>jle b a\<close>.\<close>

fun jlt :: "jsnum \<Rightarrow> jsnum \<Rightarrow> bool" where
  "jlt (Fin a) (Fin b) = (a < b)"
| "jlt NaN _ = False"
| "jlt _ NaN = False"
| "jlt PInf _ = False"
| "jlt _ NInf = False"
| "jlt _ PInf = True"
| "jlt NInf _ = True"

fun jle :: "jsnum \<Rightarrow> jsnum \<Rightarrow> bool" where
  "jle (Fin a) (Fin b) = (a \<le> b)"
| "jle NaN _ = False"
| "jle _ NaN = False"
| "jle _ PInf = True"
| "jle NInf _ = True"
| "jle PInf _ = False"
| "jle _ NInf = False"

text \<open>\<open>Math.min\<close>, \<open>Math.max\<close>, \<open>Math.abs\<close>, \<open>Math.sqrt\<close>, \<open>Math.sin\<close>, \<open>Math.cos\<close>.\<close>

definition Math_min :: "jsnum \<Rightarrow> jsnum \<Rightarrow> jsnum" where
  "Math_min a b = (if isNaN a \<or> isNaN b then NaN else if jlt b a then b else a)"

definition Math_max :: "jsnum \<Rightarrow> jsnum \<Rightarrow> jsnum" where
  "Math_max a b = (if isNaN a \<or> isNaN b then NaN else if jlt a b then b else a)"

fun Math_abs :: "jsnum \<Rightarrow> jsnum" where
  "Math_abs (Fin a) = Fin \<bar>a\<bar>"
| "Math_abs PInf = PInf"
| "Math_abs NInf = PInf"
| "Math_abs NaN = NaN"

fun Math_sqrt :: "jsnum \<Rightarrow> jsnum" where
  "Math_sqrt (Fin a) = (if a < 0 then NaN else Fin (sqrt a))"
| "Math_sqrt PInf = PInf"
| "Math_sqrt NInf = NaN"
| "Math_sqrt NaN = NaN"

fun Math_sin :: "jsnum \<Rightarrow> jsnum" where
  "Math_sin (Fin a) = Fin (sin a)"
| "Math_sin _ = NaN"

fun Math_cos :: "jsnum \<Rightarrow> jsnum" where
  "Math_cos (Fin a) = Fin (cos a)"
| "Math_cos _ = NaN"

text \<open>\<open>v ** 2\<close> and \<open>Math.pow(v, 2)\<close>.\<close>

definition sq :: "jsnum \<Rightarrow> jsnum" where
  "sq v = jmul v v"

text \<open>An array length or loop counter used as a number.\<close>

definition num :: "nat \<Rightarrow> jsnum" where
  "num n = Fin (real n)"

section \<open>The Gaussian-splat viewer: \<open>gs.ts\<close>\<close>

text \<open>
  \<open>GSViewer\<close> keeps the vertex count, the 32-channel latent buffer and the attributes of
  its \<open>BufferGeometry\<close>, a dictionary from attribute name to a typed array with an item
  size. The arrays are \<open>Float32Array\<close>s, so every cell holds a number.
\<close>

record BufferAttribute =
  array :: "jsnum list"
  itemSize :: nat

record GSViewer =
  vertexCount :: nat
  latentData :: "jsnum list"
  geometry :: "string \<rightharpoonup> BufferAttribute"

text \<open>What \<open>updateLatentTile\<close> prints: the error of the guard, or the statistics of tile 0.\<close>

datatype console =
    InvalidTileIndex int
  | TileStats int nat jsnum jsnum nat

text \<open>The local variables of the copying loop.\<close>

record tile_loop =
  tile :: "jsnum list"
  minVal :: jsnum
  maxVal :: jsnum
  nanCount :: nat
  zeroCount :: nat

text \<open>
  One pass through the body of the inner loop, for vertex \<open>i\<close> and channel \<open>c\<close>. A
  source index past the end of the latent buffer writes 0 and continues; NaN and the
  infinities are replaced by 0 before the value is stored.
\<close>

definition tile_body :: "jsnum list \<Rightarrow> nat \<Rightarrow> nat \<times> nat \<Rightarrow> tile_loop \<Rightarrow> tile_loop" where
  "tile_body latent startCh ic st =
     (let i = fst ic; c = snd ic;
          baseIdx = i * 32;
          srcIdx = baseIdx + startCh + c;
          dstIdx = i * 4 + c
      in if srcIdx \<ge> length latent then st\<lparr>tile := (tile st)[dstIdx := Fin 0]\<rparr>
         else
           let value0 = latent ! srcIdx;
               st1 = (if isNaN value0 then st\<lparr>nanCount := nanCount st + 1\<rparr> else st);
               value = (if isNaN value0 then Fin 0
                        else if \<not> isFinite value0 then Fin 0 else value0);
               st2 = (if value = Fin 0 then st1\<lparr>zeroCount := zeroCount st1 + 1\<rparr> else st1);
               st3 = st2\<lparr>tile := (tile st2)[dstIdx := value]\<rparr>
           in if isFinite value
              then st3\<lparr>minVal := Math_min (minVal st3) value,
                       maxVal := Math_max (maxVal st3) value\<rparr>
              else st3)"

text \<open>
  The nested loops \<open>for i < vertexCount\<close>, \<open>for c < 4\<close> visit the pairs of
  \<open>List.product [0..<vertexCount] [0..<4]\<close> in that order.
\<close>

definition tile_loops :: "nat \<Rightarrow> jsnum list \<Rightarrow> nat \<Rightarrow> tile_loop" where
  "tile_loops n latent startCh =
     fold (tile_body latent startCh) (List.product [0..<n] [0..<4])
       \<lparr>tile = replicate (n * 4) (Fin 0), minVal = PInf, maxVal = NInf,
        nanCount = 0, zeroCount = 0\<rparr>"

text \<open>
  \<open>updateLatentTile(tileIndex)\<close> returns the viewer after the call and what the call
  printed. The guard returns before anything is written. The tile index is an integer:
  the callers pass 0 and the counter of the loop over the eight passes.
\<close>

definition updateLatentTile :: "int \<Rightarrow> GSViewer \<Rightarrow> GSViewer \<times> console list" where
  "updateLatentTile tileIndex v =
     (if tileIndex < 0 \<or> tileIndex \<ge> 8 then (v, [InvalidTileIndex tileIndex])
      else
        let startCh = nat tileIndex * 4;
            st = tile_loops (vertexCount v) (latentData v) startCh;
            totalValues = vertexCount v * 4;
            printed = (if tileIndex = 0
                       then [TileStats tileIndex (totalValues - zeroCount st)
                               (if minVal st = PInf then Fin 0 else minVal st)
                               (if maxVal st = NInf then Fin 0 else maxVal st)
                               (nanCount st)]
                       else [])
        in (v\<lparr>geometry := (geometry v)(''latentTile'' \<mapsto> \<lparr>array = tile st, itemSize = 4\<rparr>)\<rparr>,
            printed))"

text \<open>
  The value the loop stores for vertex \<open>i\<close>, channel \<open>c\<close> of the tile that starts at
  channel \<open>startCh\<close>: the cell of the latent buffer, with everything that is not a finite
  number, and every cell past the end of the buffer, replaced by 0.
\<close>

definition latent_slice :: "jsnum list \<Rightarrow> nat \<Rightarrow> nat \<Rightarrow> nat \<Rightarrow> jsnum" where
  "latent_slice latent startCh i c =
     (let srcIdx = i * 32 + startCh + c
      in if srcIdx < length latent \<and> isFinite (latent ! srcIdx) then latent ! srcIdx
         else Fin 0)"

text \<open>A viewer with two vertices whose latent buffer is one cell longer than one vertex.\<close>

definition example_viewer :: GSViewer where
  "example_viewer =
     \<lparr>vertexCount = 2, latentData = [NaN, PInf, Fin 3, NInf] @ replicate 28 (Fin 1) @ [Fin 2],
      geometry = Map.empty\<rparr>"

section \<open>The pose solver: \<open>VRMManager\<close>\<close>

text \<open>
  \<open>THREE.Vector3\<close>, \<open>THREE.Euler\<close> (rotation order XYZ, the default) and
  \<open>THREE.Matrix4\<close>, whose \<open>elements\<close> are sixteen numbers in column-major order. The
  matrix operations are those of three.js.
\<close>

record Vector3 =
  vx :: jsnum
  vy :: jsnum
  vz :: jsnum

record Euler =
  ex :: jsnum
  ey :: jsnum
  ez :: jsnum

type_synonym Matrix4 = "jsnum list"

definition Matrix4_identity :: Matrix4 where
  "Matrix4_identity =
     [Fin 1, Fin 0, Fin 0, Fin 0,  Fin 0, Fin 1, Fin 0, Fin 0,
      Fin 0, Fin 0, Fin 1, Fin 0,  Fin 0, Fin 0, Fin 0, Fin 1]"

definition makeTranslation :: "jsnum \<Rightarrow> jsnum \<Rightarrow> jsnum \<Rightarrow> Matrix4" where
  "makeTranslation x y z =
     [Fin 1, Fin 0, Fin 0, Fin 0,  Fin 0, Fin 1, Fin 0, Fin 0,
      Fin 0, Fin 0, Fin 1, Fin 0,  x, y, z, Fin 1]"

definition makeRotationFromEuler :: "Euler \<Rightarrow> Matrix4" where
  "makeRotationFromEuler euler =
     (let a = Math_cos (ex euler); b = Math_sin (ex euler);
          c = Math_cos (ey euler); d = Math_sin (ey euler);
          e = Math_cos (ez euler); f = Math_sin (ez euler);
          ae = jmul a e; af = jmul a f; be = jmul b e; bf = jmul b f
      in [jmul c e, jadd af (jmul be d), jsub bf (jmul ae d), Fin 0,
          jmul (jneg c) f, jsub ae (jmul bf d), jadd be (jmul af d), Fin 0,
          d, jmul (jneg b) c, jmul a c, Fin 0,
          Fin 0, Fin 0, Fin 0, Fin 1])"

text \<open>
  Entry (row \<open>r\<close>, column \<open>c\<close>) of the product, summed from left to right as
  \<open>multiplyMatrices\<close> writes it: \<open>a_r1 * b_1c + a_r2 * b_2c + a_r3 * b_3c + a_r4 * b_4c\<close>.
\<close>

definition dot4 :: "Matrix4 \<Rightarrow> Matrix4 \<Rightarrow> nat \<Rightarrow> nat \<Rightarrow> jsnum" where
  "dot4 a b r c =
     jadd (jadd (jadd (jmul (a ! r) (b ! (4 * c)))
                      (jmul (a ! (r + 4)) (b ! (4 * c + 1))))
                (jmul (a ! (r + 8)) (b ! (4 * c + 2))))
          (jmul (a ! (r + 12)) (b ! (4 * c + 3)))"

definition multiplyMatrices :: "Matrix4 \<Rightarrow> Matrix4 \<Rightarrow> Matrix4" where
  "multiplyMatrices a b =
     [dot4 a b 0 0, dot4 a b 1 0, dot4 a b 2 0, dot4 a b 3 0,
      dot4 a b 0 1, dot4 a b 1 1, dot4 a b 2 1, dot4 a b 3 1,
      dot4 a b 0 2, dot4 a b 1 2, dot4 a b 2 2, dot4 a b 3 2,
      dot4 a b 0 3, dot4 a b 1 3, dot4 a b 2 3, dot4 a b 3 3]"

text \<open>
  \<open>m.toArray(array, offset)\<close> stores the sixteen elements from \<open>offset\<close> on. A write past
  the end of a typed array is dropped, as \<open>list_update\<close> drops it.
\<close>

definition toArray :: "Matrix4 \<Rightarrow> jsnum list \<Rightarrow> nat \<Rightarrow> jsnum list" where
  "toArray m arr offset = fold (\<lambda>k a. a[offset + k := m ! k]) [0..<16] arr"

definition vec3 :: "real \<Rightarrow> real \<Rightarrow> real \<Rightarrow> Vector3" where
  "vec3 x y z = \<lparr>vx = Fin x, vy = Fin y, vz = Fin z\<rparr>"

definition euler :: "jsnum \<Rightarrow> jsnum \<Rightarrow> jsnum \<Rightarrow> Euler" where
  "euler x y z = \<lparr>ex = x, ey = y, ez = z\<rparr>"

definition SKELETON_POS :: "nat \<rightharpoonup> Vector3" where
  "SKELETON_POS =
     [0 \<mapsto> vec3 0.0 1.05 0.0,
      3 \<mapsto> vec3 0.0 1.25 0.0,
      6 \<mapsto> vec3 0.0 1.35 0.0,
      9 \<mapsto> vec3 0.0 1.45 0.0,
      12 \<mapsto> vec3 0.0 1.55 0.0,
      15 \<mapsto> vec3 0.0 1.65 0.05,
      16 \<mapsto> vec3 0.22 1.42 0.0,
      17 \<mapsto> vec3 (- 0.22) 1.42 0.0,
      22 \<mapsto> vec3 0.0 1.60 0.08]"

definition HIERARCHY :: "nat \<rightharpoonup> nat" where
  "HIERARCHY = [3 \<mapsto> 0, 6 \<mapsto> 3, 9 \<mapsto> 6, 12 \<mapsto> 9, 15 \<mapsto> 12, 22 \<mapsto> 15, 16 \<mapsto> 9, 17 \<mapsto> 9]"

text \<open>
  The manager: the flattened table of 64 matrices, the lip-sync level and the local
  rotation of each bone. The clock is outside the model: \<open>update\<close> takes the elapsed
  time it reads.
\<close>

record VRMManager =
  matrices :: "jsnum list"
  lipSyncLevel :: jsnum
  localRotations :: "nat \<rightharpoonup> Euler"

definition resetPose :: "VRMManager \<Rightarrow> VRMManager" where
  "resetPose s =
     fold (\<lambda>i s. s\<lparr>matrices := toArray Matrix4_identity (matrices s) (i * 16),
                    localRotations := (localRotations s)(i \<mapsto> euler (Fin 0) (Fin 0) (Fin 0))\<rparr>)
       [0..<64] s"

definition VRMManager_new :: VRMManager where
  "VRMManager_new =
     resetPose \<lparr>matrices = replicate (16 * 64) (Fin 0), lipSyncLevel = Fin 0,
                localRotations = Map.empty\<rparr>"

definition setLipSync :: "jsnum \<Rightarrow> VRMManager \<Rightarrow> VRMManager" where
  "setLipSync level s = s\<lparr>lipSyncLevel := level\<rparr>"

definition getPivotMatrix :: "nat \<Rightarrow> Euler \<Rightarrow> Matrix4" where
  "getPivotMatrix boneIndex rotation =
     (let pivot = (case SKELETON_POS boneIndex of Some p \<Rightarrow> p | None \<Rightarrow> vec3 0 0 0);
          m = makeTranslation (vx pivot) (vy pivot) (vz pivot);
          r = makeRotationFromEuler rotation;
          m = multiplyMatrices m r;
          tInv = makeTranslation (jneg (vx pivot)) (jneg (vy pivot)) (jneg (vz pivot))
      in multiplyMatrices m tInv)"

text \<open>The bones \<open>solveHierarchy\<close> visits, in its order.\<close>

definition solved_bones :: "nat list" where
  "solved_bones = [0, 3, 6, 9, 12, 15, 16, 17, 22]"

text \<open>
  One bone of \<open>solveHierarchy\<close>: the state is the dictionary of global matrices built so
  far and the matrix table.
\<close>

definition solve_bone ::
  "(nat \<rightharpoonup> Euler) \<Rightarrow> nat \<Rightarrow> (nat \<rightharpoonup> Matrix4) \<times> jsnum list \<Rightarrow> (nat \<rightharpoonup> Matrix4) \<times> jsnum list" where
  "solve_bone rotations idx st =
     (let globalMatrices = fst st;
          rot = (case rotations idx of Some r \<Rightarrow> r | None \<Rightarrow> euler (Fin 0) (Fin 0) (Fin 0));
          localMat = getPivotMatrix idx rot;
          global = (case HIERARCHY idx of
                      None \<Rightarrow> localMat
                    | Some parentIdx \<Rightarrow>
                        (case globalMatrices parentIdx of
                           Some parent \<Rightarrow> multiplyMatrices parent localMat
                         | None \<Rightarrow> localMat))
      in (globalMatrices(idx \<mapsto> global), toArray global (snd st) (idx * 16)))"

definition solveHierarchy :: "VRMManager \<Rightarrow> VRMManager" where
  "solveHierarchy s =
     s\<lparr>matrices := snd (fold (solve_bone (localRotations s)) solved_bones
                              (Map.empty, matrices s))\<rparr>"

text \<open>\<open>update()\<close> returns a copy of the matrix table and leaves the manager updated.\<close>

definition update :: "jsnum \<Rightarrow> VRMManager \<Rightarrow> jsnum list \<times> VRMManager" where
  "update time s =
     (let r = localRotations s;
          r = r(0 \<mapsto> euler (Fin 0) (Fin 0) (Fin 0));
          r = r(9 \<mapsto> euler (jmul (Math_sin (jmul time (Fin 1.5))) (Fin 0.015)) (Fin 0) (Fin 0));
          r = r(15 \<mapsto> euler (jmul (Math_sin (jmul time (Fin 0.4))) (Fin 0.01))
                             (jmul (Math_sin (jmul time (Fin 0.25))) (Fin 0.01))
                             (Fin 0));
          r = r(22 \<mapsto> euler (jmul (lipSyncLevel s) (Fin 0.5)) (Fin 0) (Fin 0));
          r = r(16 \<mapsto> euler (Fin 0.1) (Fin 0) (Fin (- 1.2)));
          r = r(17 \<mapsto> euler (Fin 0.1) (Fin 0) (Fin 1.2));
          s' = solveHierarchy (s\<lparr>localRotations := r\<rparr>)
      in (matrices s', s'))"

text \<open>
  What callers do with a manager after constructing it: \<open>updateLipSync(level)\<close> of the
  renderer calls \<open>setLipSync\<close>, and every animation frame calls \<open>update\<close>.
\<close>

datatype vrm_call = SetLipSync jsnum | Update jsnum

fun vrm_step :: "vrm_call \<Rightarrow> VRMManager \<Rightarrow> VRMManager" where
  "vrm_step (SetLipSync level) s = setLipSync level s"
| "vrm_step (Update time) s = snd (update time s)"

definition vrm_run :: "vrm_call list \<Rightarrow> VRMManager" where
  "vrm_run calls = fold vrm_step calls VRMManager_new"

text \<open>The sixteen cells of slot \<open>i\<close> of a flattened matrix table.\<close>

definition slot :: "jsnum list \<Rightarrow> nat \<Rightarrow> jsnum list" where
  "slot table i = take 16 (drop (i * 16) table)"

section \<open>Auto-calibration: \<open>auto-calibration.ts\<close>\<close>

text \<open>
  A \<open>Float32Array\<close> of \<open>3 * N\<close> interleaved coordinates is modelled as the list of its
  \<open>N\<close> points; the loops that step through it by three visit the points in order.
\<close>

record BoundingBox =
  bbox_min :: Vector3
  bbox_max :: Vector3
  bbox_center :: Vector3
  bbox_size :: Vector3

text \<open>The body of the loop of \<open>computeBoundingBox\<close>, on the pair \<open>(min, max)\<close>.\<close>

definition bbox_body :: "Vector3 \<Rightarrow> Vector3 \<times> Vector3 \<Rightarrow> Vector3 \<times> Vector3" where
  "bbox_body p mm =
     (let mn = fst mm; mx = snd mm
      in (\<lparr>vx = Math_min (vx mn) (vx p), vy = Math_min (vy mn) (vy p),
           vz = Math_min (vz mn) (vz p)\<rparr>,
          \<lparr>vx = Math_max (vx mx) (vx p), vy = Math_max (vy mx) (vy p),
           vz = Math_max (vz mx) (vz p)\<rparr>))"

definition computeBoundingBox :: "Vector3 list \<Rightarrow> BoundingBox" where
  "computeBoundingBox positions =
     (let mm = fold bbox_body positions
                 (\<lparr>vx = PInf, vy = PInf, vz = PInf\<rparr>, \<lparr>vx = NInf, vy = NInf, vz = NInf\<rparr>);
          mn = fst mm; mx = snd mm
      in \<lparr>bbox_min = mn, bbox_max = mx,
          bbox_center = \<lparr>vx = jdiv (jadd (vx mn) (vx mx)) (Fin 2),
                          vy = jdiv (jadd (vy mn) (vy mx)) (Fin 2),
                          vz = jdiv (jadd (vz mn) (vz mx)) (Fin 2)\<rparr>,
          bbox_size = \<lparr>vx = jsub (vx mx) (vx mn), vy = jsub (vy mx) (vy mn),
                        vz = jsub (vz mx) (vz mn)\<rparr>\<rparr>)"

record AdaptiveScale =
  scaleFactor :: jsnum
  normalizedHeight :: jsnum

definition computeAdaptiveScale :: "BoundingBox \<Rightarrow> jsnum \<Rightarrow> AdaptiveScale" where
  "computeAdaptiveScale bbox targetHeight =
     (let rawHeight = vy (bbox_size bbox)
      in \<lparr>scaleFactor = jdiv targetHeight rawHeight, normalizedHeight = targetHeight\<rparr>)"

section \<open>The point-cloud loader: \<open>ply.ts\<close>\<close>

subsection \<open>Bone detection\<close>

record BonePosition =
  position :: Vector3
  radius :: jsnum

record TemplatePoint =
  tp_x :: jsnum
  tp_y :: jsnum
  tp_z :: jsnum
  bone :: nat

text \<open>
  \<open>getPointsInRange(minY, maxY)\<close>; \<open>detectBonePositions\<close> never passes the optional
  Z range.
\<close>

definition getPointsInRange :: "Vector3 list \<Rightarrow> jsnum \<Rightarrow> jsnum \<Rightarrow> Vector3 list" where
  "getPointsInRange points minY maxY = filter (\<lambda>p. jle minY (vy p) \<and> jle (vy p) maxY) points"

definition vadd :: "Vector3 \<Rightarrow> Vector3 \<Rightarrow> Vector3" where
  "vadd a b = \<lparr>vx = jadd (vx a) (vx b), vy = jadd (vy a) (vy b), vz = jadd (vz a) (vz b)\<rparr>"

text \<open>\<open>Vector3.divideScalar(s)\<close> multiplies by \<open>1 / s\<close>.\<close>

definition divideScalar :: "Vector3 \<Rightarrow> jsnum \<Rightarrow> Vector3" where
  "divideScalar v s =
     (let k = jdiv (Fin 1) s in \<lparr>vx = jmul (vx v) k, vy = jmul (vy v) k, vz = jmul (vz v) k\<rparr>)"

text \<open>
  \<open>computeCentroid\<close> and \<open>computeStdDev\<close> add the points up from left to right. The sums
  of the model are exact, and so the same for every order of the points; the binary64
  sums of the program round after every addition and may differ between two orders. No
  statement below about two orders of a cloud rests on a sum being the same in both.
\<close>

definition computeCentroid :: "Vector3 list \<Rightarrow> Vector3" where
  "computeCentroid pts =
     (if length pts = 0 then vec3 0 0 0
      else divideScalar (fold (\<lambda>p acc. vadd acc p) pts (vec3 0 0 0)) (num (length pts)))"

text \<open>\<open>computeStdDev(pts, axis)\<close>; the axis is the selector of the coordinate.\<close>

definition computeStdDev :: "Vector3 list \<Rightarrow> (Vector3 \<Rightarrow> jsnum) \<Rightarrow> jsnum" where
  "computeStdDev pts axis =
     (if length pts = 0 then Fin 0.1
      else
        let mean = jdiv (fold (\<lambda>p sum. jadd sum (axis p)) pts (Fin 0)) (num (length pts));
            variance = jdiv (fold (\<lambda>p sum. jadd sum (sq (jsub (axis p) mean))) pts (Fin 0))
                            (num (length pts))
        in Math_sqrt variance)"

text \<open>
  \<open>Array.prototype.sort(compare)\<close> is stable, and for a consistent comparison it is the
  stable insertion sort below: \<open>x\<close> moves behind \<open>y\<close> only when \<open>compare(x, y) > 0\<close>.
  Where the comparison is not consistent (it returns NaN when a key is NaN, or when both
  keys are the same infinity) ECMAScript leaves the order to the engine; the model then
  gives the order this insertion sort gives.
\<close>

fun insert_by :: "('a \<Rightarrow> 'a \<Rightarrow> jsnum) \<Rightarrow> 'a \<Rightarrow> 'a list \<Rightarrow> 'a list" where
  "insert_by compare x [] = [x]"
| "insert_by compare x (y # ys) =
     (if jlt (Fin 0) (compare x y) then y # insert_by compare x ys else x # y # ys)"

definition sort_by :: "('a \<Rightarrow> 'a \<Rightarrow> jsnum) \<Rightarrow> 'a list \<Rightarrow> 'a list" where
  "sort_by compare xs = foldr (insert_by compare) xs []"

text \<open>
  A \<open>Record<number, BonePosition>\<close>: an object whose keys are array indices lists them
  in ascending order, whatever the order of the assignments. The object is the list of
  its entries in that order, and \<open>Object.entries\<close> is the list itself.
\<close>

fun obj_put :: "nat \<Rightarrow> 'v \<Rightarrow> (nat \<times> 'v) list \<Rightarrow> (nat \<times> 'v) list" where
  "obj_put k v [] = [(k, v)]"
| "obj_put k v ((k', v') # kvs) =
     (if k = k' then (k, v) # kvs
      else if k < k' then (k, v) # (k', v') # kvs
      else (k', v') # obj_put k v kvs)"

text \<open>\<open>Math.floor(n * f)\<close> for an array length \<open>n\<close>.\<close>

definition floor_times :: "nat \<Rightarrow> real \<Rightarrow> nat" where
  "floor_times n f = nat \<lfloor>real n * f\<rfloor>"

text \<open>The points in front of the neck among which the jaw is looked for.\<close>

definition jawRegionPoints :: "Vector3 list \<Rightarrow> Vector3 \<Rightarrow> Vector3 list" where
  "jawRegionPoints points neckCenter =
     filter (\<lambda>p.
        let isInYRange = jle (vy neckCenter) (vy p) \<and> jle (vy p) (jadd (vy neckCenter) (Fin 0.08));
            isInFront = jlt (jadd (vz neckCenter) (Fin 0.02)) (vz p);
            isNearCenter = jlt (Math_abs (jsub (vx p) (vx neckCenter))) (Fin 0.08)
        in isInYRange \<and> isInFront \<and> isNearCenter) points"

definition jawCandidates :: "Vector3 list \<Rightarrow> Vector3 \<Rightarrow> Vector3 list" where
  "jawCandidates points neckCenter =
     (let sortedJawPoints = sort_by (\<lambda>a b. jsub (vy a) (vy b)) (jawRegionPoints points neckCenter)
      in take (max 10 (floor_times (length sortedJawPoints) 0.2)) sortedJawPoints)"

definition detectJaw :: "Vector3 list \<Rightarrow> Vector3 \<Rightarrow> BonePosition" where
  "detectJaw points neckCenter =
     (let candidates = jawCandidates points neckCenter;
          jawCenter = computeCentroid candidates
      in if length candidates < 5 \<or> jlt (vy jawCenter) (vy neckCenter)
         then \<lparr>position = \<lparr>vx = vx neckCenter,
                            vy = jadd (vy neckCenter) (Fin 0.05),
                            vz = jadd (vz neckCenter) (Fin 0.08)\<rparr>,
               radius = Fin 0.04\<rparr>
         else \<lparr>position = jawCenter, radius = Fin 0.04\<rparr>)"

text \<open>The points at chest height, sorted by X, of which the outer fifths are the shoulders.\<close>

definition shoulderPoints :: "Vector3 list \<Rightarrow> jsnum \<Rightarrow> Vector3 list" where
  "shoulderPoints points shoulderHeight =
     getPointsInRange points (jsub shoulderHeight (Fin 0.05)) (jadd shoulderHeight (Fin 0.05))"

definition sortedByX :: "Vector3 list \<Rightarrow> jsnum \<Rightarrow> Vector3 list" where
  "sortedByX points shoulderHeight =
     sort_by (\<lambda>a b. jsub (vx a) (vx b)) (shoulderPoints points shoulderHeight)"

definition leftShoulderPoints :: "Vector3 list \<Rightarrow> jsnum \<Rightarrow> Vector3 list" where
  "leftShoulderPoints points shoulderHeight =
     (let sorted = sortedByX points shoulderHeight
      in drop (floor_times (length sorted) 0.8) sorted)"

definition rightShoulderPoints :: "Vector3 list \<Rightarrow> jsnum \<Rightarrow> Vector3 list" where
  "rightShoulderPoints points shoulderHeight =
     (let sorted = sortedByX points shoulderHeight
      in take (floor_times (length sorted) 0.2) sorted)"

text \<open>A bone found in a height band: the centroid of the band and the clamped spread in X.\<close>

definition band_bone :: "Vector3 list \<Rightarrow> jsnum \<Rightarrow> real \<Rightarrow> real \<Rightarrow> real \<Rightarrow> BonePosition" where
  "band_bone points height lo hi minRadius =
     (let bandPoints = getPointsInRange points (jmul (Fin lo) height) (jmul (Fin hi) height)
      in \<lparr>position = computeCentroid bandPoints,
          radius = Math_max (computeStdDev bandPoints vx) (Fin minRadius)\<rparr>)"

definition detectBonePositions :: "Vector3 list \<Rightarrow> BoundingBox \<Rightarrow> (nat \<times> BonePosition) list" where
  "detectBonePositions points bbox =
     (let height = vy (bbox_size bbox);
          result = [];
          result = obj_put 0 (band_bone points height 0.50 0.65 0.12) result;
          result = obj_put 3 (band_bone points height 0.60 0.75 0.14) result;
          chest = band_bone points height 0.75 0.88 0.15;
          result = obj_put 9 chest result;
          neck = band_bone points height 0.88 0.93 0.06;
          result = obj_put 12 neck result;
          result = obj_put 15 (band_bone points height 0.90 1.0 0.10) result;
          neckCenter = position neck;
          result = obj_put 22 (detectJaw points neckCenter) result;
          shoulderHeight = vy (position chest);
          result = obj_put 16 \<lparr>position = computeCentroid (leftShoulderPoints points shoulderHeight),
                                 radius = Fin 0.06\<rparr> result;
          result = obj_put 17 \<lparr>position = computeCentroid (rightShoulderPoints points shoulderHeight),
                                 radius = Fin 0.06\<rparr> result
      in result)"

subsection \<open>Template points and the nearest template point\<close>

text \<open>
  \<open>addSphere\<close>: the jaw, bone 22, gets a half shell biased to the front, every other bone
  a fan of a sphere. The nested loops \<open>for i <= density\<close>, \<open>for j <= density\<close> push one
  point for each pair of \<open>List.product [0..<density + 1] [0..<density + 1]\<close>, in order.
\<close>

definition jaw_template :: "Vector3 \<Rightarrow> jsnum \<Rightarrow> nat \<Rightarrow> nat \<times> nat \<Rightarrow> TemplatePoint" where
  "jaw_template center r density ij =
     (let i = fst ij; j = snd ij;
          half_pi = jdiv (Fin pi) (Fin 2);
          phi = jsub (jmul (jdiv (num i) (num density)) (Fin pi)) half_pi;
          theta = jsub (jmul (jdiv (num j) (num density)) (Fin pi)) half_pi;
          x = jadd (vx center) (jmul (jmul r (Math_cos phi)) (Math_sin (jadd theta half_pi)));
          y = jadd (vy center) (jmul r (Math_sin phi));
          z = jadd (vz center) (jmul (jmul r (Math_cos phi)) (Math_cos (jadd theta half_pi)))
      in \<lparr>tp_x = x, tp_y = y, tp_z = z, bone = 22\<rparr>)"

definition fan_template :: "nat \<Rightarrow> Vector3 \<Rightarrow> jsnum \<Rightarrow> nat \<Rightarrow> nat \<times> nat \<Rightarrow> TemplatePoint" where
  "fan_template boneIdx center r density ij =
     (let i = fst ij; j = snd ij;
          phi = jdiv (Fin pi) (Fin 4);
          theta = jdiv (Fin pi) (Fin 3);
          p = jmul (jdiv (num i) (num density)) phi;
          t = jmul (jmul (jdiv (num j) (num density)) theta) (Fin 2);
          x = jadd (vx center) (jmul (jmul r (Math_sin p)) (Math_cos t));
          y = jadd (vy center) (jmul r (Math_cos p));
          z = jadd (vz center) (jmul (jmul r (Math_sin p)) (Math_sin t))
      in \<lparr>tp_x = x, tp_y = y, tp_z = z, bone = boneIdx\<rparr>)"

definition addSphere :: "nat \<Rightarrow> Vector3 \<Rightarrow> jsnum \<Rightarrow> nat \<Rightarrow> TemplatePoint list" where
  "addSphere boneIdx center r density =
     (if boneIdx = 22
      then map (jaw_template center r density) (List.product [0..<density + 1] [0..<density + 1])
      else map (fan_template boneIdx center r density)
             (List.product [0..<density + 1] [0..<density + 1]))"

definition template_density :: "nat \<Rightarrow> nat" where
  "template_density boneIdx = (if boneIdx = 22 then 8 else if boneIdx = 15 then 5 else 4)"

definition generateTemplatePoints :: "(nat \<times> BonePosition) list \<Rightarrow> TemplatePoint list" where
  "generateTemplatePoints bonePositions =
     concat (map (\<lambda>(boneIdx, b). addSphere boneIdx (position b) (radius b) (template_density boneIdx))
               bonePositions)"

text \<open>
  The search of pass 3 for one point: \<open>distSq\<close> is the squared distance to a template
  point, the state is \<open>(bestBone, minDistSq)\<close>, and a template point replaces it only
  when it is strictly nearer.
\<close>

definition distSq :: "Vector3 \<Rightarrow> TemplatePoint \<Rightarrow> jsnum" where
  "distSq p tp =
     jadd (jadd (sq (jsub (vx p) (tp_x tp))) (sq (jsub (vy p) (tp_y tp))))
          (sq (jsub (vz p) (tp_z tp)))"

definition nearest_body :: "Vector3 \<Rightarrow> TemplatePoint \<Rightarrow> nat \<times> jsnum \<Rightarrow> nat \<times> jsnum" where
  "nearest_body p tp st =
     (if jlt (distSq p tp) (snd st) then (bone tp, distSq p tp) else st)"

definition bestBone :: "TemplatePoint list \<Rightarrow> Vector3 \<Rightarrow> nat" where
  "bestBone templatePoints p = fst (fold (nearest_body p) templatePoints (0, PInf))"

subsection \<open>Calibration and rigging of the raw positions\<close>

text \<open>
  Pass 2 of \<open>load\<close>: centred on X and Z, floor-aligned on Y, scaled. The program stores
  the three products in a \<open>Float32Array\<close>, which rounds them to binary32 and turns a
  finite product beyond the binary32 range into an infinity; the model keeps the exact
  products, so a point that the model puts exactly on the edge of a height band may lie
  on the other side of it in the program. What bone detection does with cells that hold
  an infinity is stated on \<open>detectBonePositions\<close> itself, for the cells
  \<open>overflow_cells\<close>.
\<close>

definition normalize :: "BoundingBox \<Rightarrow> jsnum \<Rightarrow> Vector3 \<Rightarrow> Vector3" where
  "normalize bbox factor p =
     \<lparr>vx = jmul (jsub (vx p) (vx (bbox_center bbox))) factor,
      vy = jmul (jsub (vy p) (vy (bbox_min bbox))) factor,
      vz = jmul (jsub (vz p) (vz (bbox_center bbox))) factor\<rparr>"

definition normalizedPositions :: "Vector3 list \<Rightarrow> Vector3 list" where
  "normalizedPositions rawPositions =
     (let bbox = computeBoundingBox rawPositions;
          scaleInfo = computeAdaptiveScale bbox (Fin 1.70)
      in map (normalize bbox (scaleFactor scaleInfo)) rawPositions)"

text \<open>The template points \<open>load\<close> builds from the normalized positions.\<close>

definition templatePoints :: "Vector3 list \<Rightarrow> TemplatePoint list" where
  "templatePoints normalized =
     (let normalizedBbox = computeBoundingBox normalized;
          bonePositions = detectBonePositions normalized normalizedBbox
      in generateTemplatePoints bonePositions)"


subsection \<open>The header and the binary records\<close>

text \<open>
  A JavaScript string is the list of its UTF-16 code units. \<open>lit\<close> is a string literal
  of the source, whose characters are all ASCII.
\<close>

type_synonym js_string = "nat list"

definition lit :: "string \<Rightarrow> js_string" where
  "lit s = map of_char s"

text \<open>
  What \<open>load\<close> uses of the fetched \<open>ArrayBuffer\<close>: its length in bytes, the text that
  \<open>new TextDecoder().decode(buffer.slice(0, 5000))\<close> gives, and the binary32 value of
  the four bytes at each byte offset, read little-endian.
\<close>

record ArrayBuffer =
  byteLength :: nat
  decoded_head :: js_string
  float32_at :: "nat \<Rightarrow> jsnum"

datatype error = TypeError | RangeError | Rejected

text \<open>\<open>s.indexOf(pattern)\<close>, -1 when the pattern does not occur.\<close>

fun index_from :: "js_string \<Rightarrow> js_string \<Rightarrow> nat \<Rightarrow> int" where
  "index_from [] pattern i = (if pattern = [] then int i else - 1)"
| "index_from (c # cs) pattern i =
     (if prefix pattern (c # cs) then int i else index_from cs pattern (i + 1))"

definition indexOf :: "js_string \<Rightarrow> js_string \<Rightarrow> int" where
  "indexOf s pattern = index_from s pattern 0"

text \<open>The digits \<open>0\<close> to \<open>9\<close>, which are what \<open>\d\<close> matches.\<close>

definition is_digit :: "nat \<Rightarrow> bool" where
  "is_digit c \<longleftrightarrow> 48 \<le> c \<and> c \<le> 57"

text \<open>
  \<open>headerText.match(/element vertex (\d+)/)\<close>: the leftmost place where the literal
  text is followed by a digit, with the longest run of digits as group 1; \<open>None\<close> is the
  \<open>null\<close> of no match. The expression is not anchored, and the text it searches is all
  of the decoded bytes, the header and what follows it.
\<close>

fun match_element_vertex :: "js_string \<Rightarrow> js_string option" where
  "match_element_vertex [] = None"
| "match_element_vertex (c # cs) =
     (let rest = drop 15 (c # cs)
      in if prefix (lit ''element vertex '') (c # cs) \<and> rest \<noteq> [] \<and> is_digit (hd rest)
         then Some (takeWhile is_digit rest)
         else match_element_vertex cs)"

text \<open>
  \<open>parseInt\<close> of a run of decimal digits. The count is a natural number: the loss of
  precision of \<open>parseInt\<close> beyond \<open>2^53\<close> and the limit on the length of a typed array
  are not modelled.
\<close>

definition parseInt :: "js_string \<Rightarrow> nat" where
  "parseInt digits = foldl (\<lambda>n c. 10 * n + (c - 48)) 0 digits"

fun split :: "nat \<Rightarrow> js_string \<Rightarrow> js_string list" where
  "split sep [] = [[]]"
| "split sep (c # cs) =
     (if c = sep then [] # split sep cs
      else (case split sep cs of [] \<Rightarrow> [[c]] | w # ws \<Rightarrow> (c # w) # ws))"

text \<open>
  \<open>String.prototype.trim\<close> strips the white space and the line terminators of
  ECMAScript: tab, line feed, vertical tab, form feed, carriage return, space,
  no-break space, the other space separators of Unicode, the line and paragraph
  separators and the byte order mark.
\<close>

definition is_space :: "nat \<Rightarrow> bool" where
  "is_space c \<longleftrightarrow>
     c \<in> {0x09, 0x0A, 0x0B, 0x0C, 0x0D, 0x20, 0xA0, 0x1680, 0x2028, 0x2029, 0x202F,
           0x205F, 0x3000, 0xFEFF} \<or>
     (0x2000 \<le> c \<and> c \<le> 0x200A)"

definition trim :: "js_string \<Rightarrow> js_string" where
  "trim s = rev (dropWhile is_space (rev (dropWhile is_space s)))"

text \<open>The names of the \<open>property float\<close> lines, in the order of the header.\<close>

definition header_props :: "js_string \<Rightarrow> js_string list" where
  "header_props headerText =
     map (\<lambda>l. trim (last (split 0x20 l)))
       (filter (\<lambda>l. prefix (lit ''property float'') l) (split 0x0A headerText))"

text \<open>\<open>props.indexOf(name)\<close>.\<close>

fun prop_index_from :: "js_string list \<Rightarrow> js_string \<Rightarrow> nat \<Rightarrow> int" where
  "prop_index_from [] name i = - 1"
| "prop_index_from (q # qs) name i = (if q = name then int i else prop_index_from qs name (i + 1))"

definition prop_index :: "js_string list \<Rightarrow> string \<Rightarrow> int" where
  "prop_index props name = prop_index_from props (lit name) 0"

text \<open>
  \<open>new DataView(buffer, byteOffset)\<close> and \<open>getFloat32(offset, true)\<close>: both throw a
  \<open>RangeError\<close> outside the buffer.
\<close>

record DataView =
  dv_buffer :: ArrayBuffer
  dv_byteOffset :: nat

definition DataView_new :: "ArrayBuffer \<Rightarrow> int \<Rightarrow> error + DataView" where
  "DataView_new buffer byteOffset =
     (if byteOffset < 0 \<or> byteOffset > int (byteLength buffer) then Inl RangeError
      else Inr \<lparr>dv_buffer = buffer, dv_byteOffset = nat byteOffset\<rparr>)"

definition getFloat32 :: "DataView \<Rightarrow> int \<Rightarrow> error + jsnum" where
  "getFloat32 dv offset =
     (if offset < 0 \<or> int (dv_byteOffset dv) + offset + 4 > int (byteLength (dv_buffer dv))
      then Inl RangeError
      else Inr (float32_at (dv_buffer dv) (dv_byteOffset dv + nat offset)))"

text \<open>A loop over the vertices whose body may throw: the first exception ends it.\<close>

fun for_each :: "(nat \<Rightarrow> error + 'a) \<Rightarrow> nat list \<Rightarrow> error + 'a list" where
  "for_each body [] = Inr []"
| "for_each body (i # is) =
     (case body i of
        Inl e \<Rightarrow> Inl e
      | Inr v \<Rightarrow> (case for_each body is of Inl e \<Rightarrow> Inl e | Inr vs \<Rightarrow> Inr (v # vs)))"

text \<open>Pass 1 reads \<open>x\<close>, \<open>y\<close>, \<open>z\<close> of vertex \<open>i\<close>.\<close>

definition read_raw :: "DataView \<Rightarrow> js_string list \<Rightarrow> nat \<Rightarrow> error + Vector3" where
  "read_raw dataView props i =
     (let stride = int (length props) * 4;
          b = int i * stride
      in case getFloat32 dataView (b + prop_index props ''x'' * 4) of
           Inl e \<Rightarrow> Inl e
         | Inr x \<Rightarrow>
        (case getFloat32 dataView (b + prop_index props ''y'' * 4) of
           Inl e \<Rightarrow> Inl e
         | Inr y \<Rightarrow>
        (case getFloat32 dataView (b + prop_index props ''z'' * 4) of
           Inl e \<Rightarrow> Inl e
         | Inr z \<Rightarrow> Inr \<lparr>vx = x, vy = y, vz = z\<rparr>)))"

text \<open>The \<open>read\<close> of pass 3: a property the header does not list reads as 0.\<close>

definition read_prop :: "DataView \<Rightarrow> js_string list \<Rightarrow> nat \<Rightarrow> string \<Rightarrow> error + jsnum" where
  "read_prop dataView props i n =
     (let stride = int (length props) * 4;
          b = int i * stride;
          idx = prop_index props n
      in if idx = - 1 then Inr (Fin 0) else getFloat32 dataView (b + idx * 4))"

definition read_triple ::
  "DataView \<Rightarrow> js_string list \<Rightarrow> nat \<Rightarrow> string \<Rightarrow> string \<Rightarrow> string \<Rightarrow> error + Vector3" where
  "read_triple dataView props i n0 n1 n2 =
     (case read_prop dataView props i n0 of
        Inl e \<Rightarrow> Inl e
      | Inr a \<Rightarrow>
     (case read_prop dataView props i n1 of
        Inl e \<Rightarrow> Inl e
      | Inr b \<Rightarrow>
     (case read_prop dataView props i n2 of
        Inl e \<Rightarrow> Inl e
      | Inr c \<Rightarrow> Inr \<lparr>vx = a, vy = b, vz = c\<rparr>)))"

text \<open>What pass 3 stores for one vertex.\<close>

record Vertex =
  v_position :: Vector3
  v_color :: Vector3
  v_scale :: Vector3
  v_boneIndices :: "jsnum list"
  v_boneWeights :: "jsnum list"

definition rig_vertex ::
  "DataView \<Rightarrow> js_string list \<Rightarrow> jsnum \<Rightarrow> Vector3 list \<Rightarrow> TemplatePoint list \<Rightarrow> nat \<Rightarrow> error + Vertex" where
  "rig_vertex dataView props factor normalized templates i =
     (let p = normalized ! i
      in case read_triple dataView props i ''f_dc_0'' ''f_dc_1'' ''f_dc_2'' of
           Inl e \<Rightarrow> Inl e
         | Inr color \<Rightarrow>
        (case read_triple dataView props i ''scale_0'' ''scale_1'' ''scale_2'' of
           Inl e \<Rightarrow> Inl e
         | Inr s \<Rightarrow>
             Inr \<lparr>v_position = p, v_color = color,
                  v_scale = \<lparr>vx = jmul (vx s) factor, vy = jmul (vy s) factor,
                              vz = jmul (vz s) factor\<rparr>,
                  v_boneIndices = [num (bestBone templates p), Fin 0, Fin 0, Fin 0],
                  v_boneWeights = [Fin 1.0, Fin 0.0, Fin 0.0, Fin 0.0]\<rparr>))"

text \<open>
  The object \<open>load\<close> resolves to. The arrays with three numbers for each vertex are lists
  of points, those with four are lists of four-element lists. \<open>boneStats\<close> counts the
  vertices of each of the eight bones.
\<close>

record LoadedData =
  positions :: "Vector3 list"
  colors :: "Vector3 list"
  boneIndices :: "jsnum list list"
  boneWeights :: "jsnum list list"
  scales :: "Vector3 list"
  calibration_bbox :: BoundingBox
  calibration_scaleInfo :: AdaptiveScale
  boneStats :: "(nat \<times> nat) list"

definition bone_ids :: "nat list" where
  "bone_ids = [0, 3, 9, 12, 15, 16, 17, 22]"

definition load :: "ArrayBuffer \<Rightarrow> error + LoadedData" where
  "load buffer =
     (let headerText = decoded_head buffer;
          headerEndIdx = indexOf headerText (lit ''end_header'') + 10
      in case match_element_vertex headerText of
           None \<Rightarrow> Inl TypeError
         | Some digits \<Rightarrow>
        (let vertexCount = parseInt digits;
             props = header_props headerText
         in case DataView_new buffer (headerEndIdx + 1) of
              Inl e \<Rightarrow> Inl e
            | Inr dataView \<Rightarrow>
           (case for_each (read_raw dataView props) [0..<vertexCount] of
              Inl e \<Rightarrow> Inl e
            | Inr rawPositions \<Rightarrow>
           (let bbox = computeBoundingBox rawPositions;
                scaleInfo = computeAdaptiveScale bbox (Fin 1.70);
                normalized = normalizedPositions rawPositions;
                templates = templatePoints normalized
            in case for_each (rig_vertex dataView props (scaleFactor scaleInfo) normalized templates)
                      [0..<vertexCount] of
                 Inl e \<Rightarrow> Inl e
               | Inr vs \<Rightarrow>
                   Inr \<lparr>positions = map v_position vs, colors = map v_color vs,
                        boneIndices = map v_boneIndices vs, boneWeights = map v_boneWeights vs,
                        scales = map v_scale vs,
                        calibration_bbox = bbox, calibration_scaleInfo = scaleInfo,
                        boneStats = map (\<lambda>b. (b, length (filter (\<lambda>v. v_boneIndices v ! 0 = num b) vs)))
                                      bone_ids\<rparr>))))"

section \<open>The avatar: \<open>gvrm.ts\<close>\<close>

text \<open>
  Of the avatar the model keeps the viewer, the ready flag and the pose solver.
  \<open>updateLipSync\<close> hands the level to the pose solver.
\<close>

record GVRM =
  viewer :: "GSViewer option"
  isReady :: bool
  vrm :: VRMManager

definition updateLipSync :: "jsnum \<Rightarrow> GVRM \<Rightarrow> GVRM" where
  "updateLipSync level g = g\<lparr>vrm := setLipSync level (vrm g)\<rparr>"

text \<open>
  Between the loading of the point cloud and the construction of the viewer,
  \<open>loadAssets\<close> awaits the template decoder, the image encoder, the neural refiner, the
  camera configuration and the vertex mapping, and copies the decoder's output to the
  vertices. These stages are outside the model: they are a function from the loaded data
  to the arrays they hand to the viewer, or to the exception one of them throws.
\<close>

record GaussianFeatures =
  gf_latents :: "jsnum list"
  gf_opacity :: "jsnum list"
  gf_scale :: "jsnum list"
  gf_rotation :: "jsnum list"

definition flat3 :: "Vector3 list \<Rightarrow> jsnum list" where
  "flat3 ps = concat (map (\<lambda>p. [vx p, vy p, vz p]) ps)"

text \<open>The constructor of \<open>GSViewer\<close>: the attributes, then \<open>updateLatentTile(0)\<close>.\<close>

definition GSViewer_new :: "LoadedData \<Rightarrow> GaussianFeatures \<Rightarrow> GSViewer" where
  "GSViewer_new data f =
     fst (updateLatentTile 0
       \<lparr>vertexCount = length (positions data), latentData = gf_latents f,
        geometry =
          [''position'' \<mapsto> \<lparr>array = flat3 (positions data), itemSize = 3\<rparr>,
           ''boneIndices'' \<mapsto> \<lparr>array = concat (boneIndices data), itemSize = 4\<rparr>,
           ''boneWeights'' \<mapsto> \<lparr>array = concat (boneWeights data), itemSize = 4\<rparr>,
           ''opacity'' \<mapsto> \<lparr>array = gf_opacity f, itemSize = 1\<rparr>,
           ''gaussianScale'' \<mapsto> \<lparr>array = gf_scale f, itemSize = 3\<rparr>]\<rparr>)"

text \<open>
  \<open>loadAssets\<close>: everything is inside one \<open>try\<close>, whose \<open>catch\<close> logs the exception and
  returns \<open>false\<close>; the viewer and the ready flag are set only by the last statements of
  the \<open>try\<close>.
\<close>

definition loadAssets ::
  "(LoadedData \<Rightarrow> error + GaussianFeatures) \<Rightarrow> ArrayBuffer \<Rightarrow> GVRM \<Rightarrow> bool \<times> GVRM" where
  "loadAssets stages buffer g =
     (case load buffer of
        Inl e \<Rightarrow> (False, g)
      | Inr data \<Rightarrow>
          (case stages data of
             Inl e \<Rightarrow> (False, g)
           | Inr f \<Rightarrow> (True, g\<lparr>viewer := Some (GSViewer_new data f), isReady := True\<rparr>)))"

text \<open>
  Two files for the examples: a cloud of two points, and the same header without its
  \<open>element vertex\<close> line. The avatar is the one the constructor leaves, and the later
  stages of the example reject.
\<close>

definition header_lines :: "string list \<Rightarrow> js_string" where
  "header_lines ls = concat (map (\<lambda>l. lit l @ [0x0A]) ls)"

definition example_buffer :: ArrayBuffer where
  "example_buffer =
     \<lparr>byteLength = 139,
      decoded_head = header_lines [''ply'', ''format binary_little_endian 1.0'', ''element vertex 2'',
         ''property float x'', ''property float y'', ''property float z'', ''end_header''],
      float32_at = (\<lambda>offset. if offset = 119 then Fin 0 else if offset = 131 then Fin 1.8 else Fin 0)\<rparr>"

definition headless_buffer :: ArrayBuffer where
  "headless_buffer =
     \<lparr>byteLength = 122,
      decoded_head = header_lines [''ply'', ''format binary_little_endian 1.0'',
         ''property float x'', ''property float y'', ''property float z'', ''end_header''],
      float32_at = (\<lambda>offset. Fin 0)\<rparr>"

definition GVRM_new :: GVRM where
  "GVRM_new = \<lparr>viewer = None, isReady = False, vrm = VRMManager_new\<rparr>"

definition no_stages :: "LoadedData \<Rightarrow> error + GaussianFeatures" where
  "no_stages data = Inl Rejected"

text \<open>
  The header proper of a header text: the text up to and including \<open>end_header\<close>, which
  is where \<open>load\<close> puts the first record (one byte further, after the line feed). What
  follows it in the decoded first 5000 bytes is payload.
\<close>

definition header_block :: "js_string \<Rightarrow> js_string" where
  "header_block headerText = take (nat (indexOf headerText (lit ''end_header'') + 10)) headerText"

text \<open>
  A file whose header has no \<open>element vertex\<close> line, and whose bytes after the header
  decode to \<open>element vertex 0\<close>; and later stages that accept whatever they are given.
\<close>

definition payload_buffer :: ArrayBuffer where
  "payload_buffer =
     \<lparr>byteLength = 114,
      decoded_head = header_lines [''ply'', ''format binary_little_endian 1.0'',
         ''property float x'', ''property float y'', ''property float z'', ''end_header'']
         @ lit ''element vertex 0'',
      float32_at = (\<lambda>offset. Fin 0)\<rparr>"

definition ready_stages :: "LoadedData \<Rightarrow> error + GaussianFeatures" where
  "ready_stages data = Inr \<lparr>gf_latents = [], gf_opacity = [], gf_scale = [], gf_rotation = []\<rparr>"

text \<open>Four points at the heights 0, 0.6, 1.2 and 1.8.\<close>

definition example_cloud :: "Vector3 list" where
  "example_cloud = [vec3 0 0 0, vec3 0 0.6 0, vec3 0 1.2 0, vec3 0 1.8 0]"

text \<open>
  A vector of three finite numbers, and a point that a height band either never selects
  (its height is NaN, so every comparison with it is false) or selects with three finite
  coordinates.
\<close>

definition finite3 :: "Vector3 \<Rightarrow> bool" where
  "finite3 v \<longleftrightarrow> isFinite (vx v) \<and> isFinite (vy v) \<and> isFinite (vz v)"

definition selectable :: "Vector3 \<Rightarrow> bool" where
  "selectable p \<longleftrightarrow> isNaN (vy p) \<or> finite3 p"

text \<open>
  A cloud of four points in two orders: two points at chest height with the same X.
\<close>

definition tie_cloud :: "Vector3 list" where
  "tie_cloud = [vec3 (- 0.3) 0 0, vec3 (- 0.3) 1.7 0, vec3 0.3 1.4 0.4, vec3 0.3 1.4 (- 0.4)]"



text \<open>
  Three more inputs. A raw cloud of zero height, whose scale factor is \<open>1.7 / 0\<close>. A raw
  cloud with an infinite X in either direction, as a file may hold it. And the cells of a
  position array after an overflow: the raw rows \<open>(-2^40, 0, 0)\<close> and
  \<open>(2^40, 2^-100, 0)\<close> are finite, their scale factor is \<open>1.7 * 2^100\<close>, and the
  products \<open>-1.7 * 2^140\<close> and \<open>1.7 * 2^140\<close> are beyond the binary32 range, so that the
  \<open>Float32Array\<close> of the normalized positions holds \<open>-Infinity\<close> and \<open>Infinity\<close> there.
\<close>

definition flat_cloud :: "Vector3 list" where
  "flat_cloud = [vec3 0 0 0, vec3 1 0 0]"

definition unbounded_cloud :: "Vector3 list" where
  "unbounded_cloud = [\<lparr>vx = NInf, vy = Fin 0, vz = Fin 0\<rparr>, \<lparr>vx = PInf, vy = Fin 3.4, vz = Fin 0\<rparr>]"

definition overflow_cells :: "Vector3 list" where
  "overflow_cells = [\<lparr>vx = NInf, vy = Fin 0, vz = Fin 0\<rparr>, \<lparr>vx = PInf, vy = Fin 1.7, vz = Fin 0\<rparr>]"

text \<open>
  The invariant of the matrix table: 1024 cells, and the identity in every slot that
  \<open>solveHierarchy\<close> never writes.
\<close>

definition table_ok :: "jsnum list \<Rightarrow> bool" where
  "table_ok t \<longleftrightarrow> length t = 1024 \<and> (\<forall>i<64. i \<notin> set solved_bones \<longrightarrow> slot t i = Matrix4_identity)"

section \<open>Properties of the viewer\<close>

lemma tile_body_tile:
  "tile (tile_body latent startCh (i, c) st) =
     (tile st)[i * 4 + c := latent_slice latent startCh i c]"
  by (cases "latent ! (i * 32 + startCh + c)")
     (simp_all add: tile_body_def latent_slice_def Let_def)

lemma tile_fold_length:
  "length (tile (fold (tile_body latent startCh) ics st)) = length (tile st)"
proof (induction ics arbitrary: st)
  case Nil
  show ?case by simp
next
  case (Cons ic ics)
  obtain i c where ic: "ic = (i, c)" by (cases ic)
  show ?case by (simp add: Cons.IH ic tile_body_tile)
qed

lemma tile_fold_untouched:
  assumes "\<forall>(i, c) \<in> set ics. i * 4 + c \<noteq> k"
  shows "tile (fold (tile_body latent startCh) ics st) ! k = tile st ! k"
  using assms
proof (induction ics arbitrary: st)
  case Nil
  show ?case by simp
next
  case (Cons ic ics)
  obtain i c where ic: "ic = (i, c)" by (cases ic)
  from Cons.prems have ne: "i * 4 + c \<noteq> k" and rest: "\<forall>(i, c) \<in> set ics. i * 4 + c \<noteq> k"
    by (auto simp: ic)
  show ?case using ne by (simp add: Cons.IH [OF rest] ic tile_body_tile)
qed

lemma tile_fold_written:
  assumes "(i, c) \<in> set ics"
    and "distinct (map (\<lambda>(i, c). i * 4 + c) ics)"
    and "i * 4 + c < length (tile st)"
  shows "tile (fold (tile_body latent startCh) ics st) ! (i * 4 + c)
           = latent_slice latent startCh i c"
  using assms
proof (induction ics arbitrary: st)
  case Nil
  then show ?case by simp
next
  case (Cons jd ics)
  obtain j d where jd: "jd = (j, d)" by (cases jd)
  show ?case
  proof (cases "(i, c) \<in> set ics")
    case True
    from Cons.prems(2) have dist: "distinct (map (\<lambda>(i, c). i * 4 + c) ics)" by simp
    have len: "i * 4 + c < length (tile (tile_body latent startCh jd st))"
      using Cons.prems(3) by (simp add: jd tile_body_tile)
    show ?thesis using Cons.IH [OF True dist len] by simp
  next
    case False
    with Cons.prems(1) have eq: "jd = (i, c)" by simp
    from Cons.prems(2) have "\<forall>(i', c') \<in> set ics. i' * 4 + c' \<noteq> i * 4 + c"
      by (force simp: eq image_iff)
    then have "tile (fold (tile_body latent startCh) ics (tile_body latent startCh (i, c) st))
                 ! (i * 4 + c)
               = tile (tile_body latent startCh (i, c) st) ! (i * 4 + c)"
      by (rule tile_fold_untouched)
    then show ?thesis using Cons.prems(3) by (simp add: eq tile_body_tile)
  qed
qed

lemma product_indices_distinct:
  "distinct (map (\<lambda>(i, c). i * 4 + c) (List.product [0..<n] [0..<4]))"
proof -
  have "inj_on (\<lambda>(i, c). i * 4 + c) (set (List.product [0..<n] [0..<4]))"
    by (auto simp: inj_on_def) arith+
  moreover have "distinct (List.product [0..<n] [0..<4])"
    by (simp add: distinct_product)
  ultimately show ?thesis by (simp add: distinct_map)
qed

lemma tile_loops_length: "length (tile (tile_loops n latent startCh)) = n * 4"
  by (simp add: tile_loops_def tile_fold_length)

lemma tile_loops_nth:
  assumes "i < n" and "c < 4"
  shows "tile (tile_loops n latent startCh) ! (i * 4 + c) = latent_slice latent startCh i c"
proof -
  have mem: "(i, c) \<in> set (List.product [0..<n] [0..<4])" using assms by simp
  have "i * 4 + c < n * 4" using assms by arith
  then show ?thesis
    unfolding tile_loops_def
    by (intro tile_fold_written [OF mem product_indices_distinct]) simp
qed

lemma latent_slice_finite: "isFinite (latent_slice latent startCh i c)"
  by (simp add: latent_slice_def Let_def)

lemma tile_loops_finite:
  assumes "k < n * 4"
  shows "isFinite (tile (tile_loops n latent startCh) ! k)"
proof -
  have "k = (k div 4) * 4 + k mod 4" by simp
  moreover have "k div 4 < n" using assms by (simp add: less_mult_imp_div_less)
  moreover have "k mod 4 < 4" by simp
  ultimately show ?thesis
    using tile_loops_nth [of "k div 4" n "k mod 4" latent startCh]
    by (simp add: latent_slice_finite)
qed

lemma updateLatentTile_in_range:
  assumes "0 \<le> i" and "i \<le> 7"
  shows "fst (updateLatentTile i v) =
           v\<lparr>geometry := (geometry v)(''latentTile'' \<mapsto>
                \<lparr>array = tile (tile_loops (vertexCount v) (latentData v) (nat i * 4)),
                 itemSize = 4\<rparr>)\<rparr>"
    and "InvalidTileIndex i \<notin> set (snd (updateLatentTile i v))"
  using assms by (simp_all add: updateLatentTile_def Let_def)

lemma tile_loops_eq_slices:
  "tile (tile_loops n latent startCh) =
     map (\<lambda>k. latent_slice latent startCh (k div 4) (k mod 4)) [0..<n * 4]"
proof (rule nth_equalityI)
  show "length (tile (tile_loops n latent startCh)) =
          length (map (\<lambda>k. latent_slice latent startCh (k div 4) (k mod 4)) [0..<n * 4])"
    by (simp add: tile_loops_length)
next
  fix k assume "k < length (tile (tile_loops n latent startCh))"
  then have k: "k < n * 4" by (simp add: tile_loops_length)
  then have "k div 4 < n" by (simp add: less_mult_imp_div_less)
  then have "tile (tile_loops n latent startCh) ! ((k div 4) * 4 + k mod 4)
               = latent_slice latent startCh (k div 4) (k mod 4)"
    by (intro tile_loops_nth) simp_all
  then show "tile (tile_loops n latent startCh) ! k =
          map (\<lambda>k. latent_slice latent startCh (k div 4) (k mod 4)) [0..<n * 4] ! k"
    using k by simp
qed

text \<open>
  C4. For every integer \<open>i\<close>, \<open>updateLatentTile(i)\<close> succeeds exactly when \<open>0 \<le> i \<le> 7\<close>:
  in that range no error is printed and the \<open>latentTile\<close> attribute becomes the \<open>i\<close>-th
  4-channel slice of the latent buffer, item size 4; outside it the call prints the error
  and returns the viewer as it was, so the tile installed before stays.
\<close>

theorem updateLatentTile_succeeds_iff_in_range:
  "(0 \<le> i \<and> i \<le> 7 \<longrightarrow>
      InvalidTileIndex i \<notin> set (snd (updateLatentTile i v)) \<and>
      fst (updateLatentTile i v) =
        v\<lparr>geometry := (geometry v)(''latentTile'' \<mapsto>
           \<lparr>array = map (\<lambda>k. latent_slice (latentData v) (nat i * 4) (k div 4) (k mod 4))
                      [0..<vertexCount v * 4],
            itemSize = 4\<rparr>)\<rparr>) \<and>
   (\<not> (0 \<le> i \<and> i \<le> 7) \<longrightarrow>
      updateLatentTile i v = (v, [InvalidTileIndex i]) \<and>
      geometry (fst (updateLatentTile i v)) ''latentTile'' = geometry v ''latentTile'')"
proof (cases "0 \<le> i \<and> i \<le> 7")
  case True
  then show ?thesis
    using updateLatentTile_in_range [of i v] by (simp add: tile_loops_eq_slices)
next
  case False
  then have "i < 0 \<or> i \<ge> 8" by arith
  then have "updateLatentTile i v = (v, [InvalidTileIndex i])"
    by (auto simp: updateLatentTile_def)
  with False show ?thesis by simp
qed

theorem updateLatentTile_succeeds_iff_in_range_witness:
  "geometry (fst (updateLatentTile 7 example_viewer)) ''latentTile''
     = Some \<lparr>array = [Fin 1, Fin 1, Fin 1, Fin 1, Fin 0, Fin 0, Fin 0, Fin 0], itemSize = 4\<rparr>
   \<and> updateLatentTile 8 example_viewer = (example_viewer, [InvalidTileIndex 8])
   \<and> updateLatentTile (- 1) example_viewer = (example_viewer, [InvalidTileIndex (- 1)])"
proof -
  have a: "[0..<8] = [0, 1, 2, 3, 4, 5, 6, 7::nat]" by (simp add: upt_rec)
  show ?thesis
    using updateLatentTile_succeeds_iff_in_range [of 7 example_viewer]
      updateLatentTile_succeeds_iff_in_range [of 8 example_viewer]
      updateLatentTile_succeeds_iff_in_range [of "- 1" example_viewer]
    by (simp add: example_viewer_def latent_slice_def a nth_append)
qed

text \<open>
  C9. For every tile index in \<open>[0, 7]\<close> and every latent buffer, whatever it holds and
  however short it is, the \<open>latentTile\<close> attribute written by \<open>updateLatentTile\<close> has
  exactly \<open>vertexCount * 4\<close> entries, all of them finite: a source cell that holds NaN or
  an infinity, and a source index past the end of the buffer, give 0.
\<close>

theorem updateLatentTile_tile_finite:
  assumes "0 \<le> i" and "i \<le> 7"
  shows "\<exists>att. geometry (fst (updateLatentTile i v)) ''latentTile'' = Some att \<and>
           length (array att) = vertexCount v * 4 \<and>
           (\<forall>k < vertexCount v * 4. isFinite (array att ! k)) \<and>
           (\<forall>p < vertexCount v. \<forall>c < 4.
              (p * 32 + nat i * 4 + c \<ge> length (latentData v) \<or>
               \<not> isFinite (latentData v ! (p * 32 + nat i * 4 + c)))
              \<longrightarrow> array att ! (p * 4 + c) = Fin 0)"
proof -
  let ?t = "tile (tile_loops (vertexCount v) (latentData v) (nat i * 4))"
  have "geometry (fst (updateLatentTile i v)) ''latentTile''
          = Some \<lparr>array = ?t, itemSize = 4\<rparr>"
    using updateLatentTile_in_range(1) [OF assms, of v] by simp
  moreover have "length ?t = vertexCount v * 4" by (rule tile_loops_length)
  moreover have "\<forall>k < vertexCount v * 4. isFinite (?t ! k)"
    by (simp add: tile_loops_finite)
  moreover have "\<forall>p < vertexCount v. \<forall>c < 4.
              (p * 32 + nat i * 4 + c \<ge> length (latentData v) \<or>
               \<not> isFinite (latentData v ! (p * 32 + nat i * 4 + c)))
              \<longrightarrow> ?t ! (p * 4 + c) = Fin 0"
    by (auto simp: tile_loops_nth latent_slice_def Let_def)
  ultimately show ?thesis by simp
qed

theorem updateLatentTile_tile_finite_witness:
  "(0::int) \<le> 0 \<and> (0::int) \<le> 7 \<and>
   (\<exists>att. geometry (fst (updateLatentTile 0 example_viewer)) ''latentTile'' = Some att \<and>
      length (array att) = 8 \<and> (\<forall>k < 8. isFinite (array att ! k)) \<and>
      array att ! 0 = Fin 0 \<and> array att ! 1 = Fin 0 \<and> array att ! 3 = Fin 0 \<and>
      array att ! 5 = Fin 0)"
proof -
  obtain att where att: "geometry (fst (updateLatentTile 0 example_viewer)) ''latentTile'' = Some att"
      "length (array att) = vertexCount example_viewer * 4"
      "\<forall>k < vertexCount example_viewer * 4. isFinite (array att ! k)"
      "\<forall>p < vertexCount example_viewer. \<forall>c < 4.
              (p * 32 + nat 0 * 4 + c \<ge> length (latentData example_viewer) \<or>
               \<not> isFinite (latentData example_viewer ! (p * 32 + nat 0 * 4 + c)))
              \<longrightarrow> array att ! (p * 4 + c) = Fin 0"
    using updateLatentTile_tile_finite [of 0 example_viewer] by auto
  have vc: "vertexCount example_viewer = 2" by (simp add: example_viewer_def)
  have ld: "latentData example_viewer ! 0 = NaN" "latentData example_viewer ! Suc 0 = PInf"
      "latentData example_viewer ! 3 = NInf" "length (latentData example_viewer) = 33"
    by (simp_all add: example_viewer_def)
  have "array att ! (0 * 4 + 0) = Fin 0" "array att ! (0 * 4 + 1) = Fin 0"
       "array att ! (0 * 4 + 3) = Fin 0" "array att ! (1 * 4 + 1) = Fin 0"
    using att(4) [rule_format, of 0 0] att(4) [rule_format, of 0 1]
      att(4) [rule_format, of 0 3] att(4) [rule_format, of 1 1]
    by (simp_all add: vc ld)
  then show ?thesis using att(1-3) by (simp add: vc)
qed

section \<open>Properties of the pose solver\<close>

lemma toArray_length: "length (toArray m arr off) = length arr"
proof -
  have "length (fold (\<lambda>k a. a[off + k := m ! k]) ks arr) = length arr" for ks
    by (induction ks arbitrary: arr) simp_all
  then show ?thesis by (simp add: toArray_def)
qed

lemma fold_update_nth:
  "j < length arr \<Longrightarrow> fold (\<lambda>k a. a[off + k := m ! k]) [0..<n] arr ! j =
     (if off \<le> j \<and> j < off + n then m ! (j - off) else arr ! j)"
proof (induction n)
  case 0
  show ?case by auto
next
  case (Suc n)
  have len: "length (fold (\<lambda>k a. a[off + k := m ! k]) [0..<n] arr) = length arr"
    by (induction n) simp_all
  have "off \<le> j \<and> j < off \<longleftrightarrow> False" by arith
  then show ?case
    using Suc.IH Suc.prems len by (auto simp: nth_list_update less_Suc_eq)
qed

lemma toArray_nth:
  "j < length arr \<Longrightarrow> toArray m arr off ! j =
     (if off \<le> j \<and> j < off + 16 then m ! (j - off) else arr ! j)"
  unfolding toArray_def by (rule fold_update_nth)

lemma slot_nth: "(i + 1) * 16 \<le> length t \<Longrightarrow> k < 16 \<Longrightarrow> slot t i ! k = t ! (i * 16 + k)"
  by (simp add: slot_def)

lemma slot_eqI:
  assumes "(i + 1) * 16 \<le> length t" and "length m = 16"
    and "\<And>k. k < 16 \<Longrightarrow> t ! (i * 16 + k) = m ! k"
  shows "slot t i = m"
proof (rule nth_equalityI)
  show "length (slot t i) = length m" using assms(1,2) by (simp add: slot_def)
next
  fix k assume "k < length (slot t i)"
  then have "k < 16" by (simp add: slot_def)
  then show "slot t i ! k = m ! k" using assms(1,3) by (simp add: slot_def)
qed

lemma pivot_root_identity:
  "getPivotMatrix 0 (euler (Fin 0) (Fin 0) (Fin 0)) = Matrix4_identity"
  by (simp add: getPivotMatrix_def SKELETON_POS_def vec3_def euler_def makeTranslation_def
      makeRotationFromEuler_def multiplyMatrices_def dot4_def Matrix4_identity_def jsub_def Let_def)

lemma identity_length: "length Matrix4_identity = 16"
  by (simp add: Matrix4_identity_def)

lemma resetPose_matrices:
  "matrices (fold (\<lambda>i s. s\<lparr>matrices := toArray Matrix4_identity (matrices s) (i * 16),
                    localRotations := (localRotations s)(i \<mapsto> euler (Fin 0) (Fin 0) (Fin 0))\<rparr>) is s)
     = fold (\<lambda>i t. toArray Matrix4_identity t (i * 16)) is (matrices s)"
  by (induction "is" arbitrary: s) simp_all

lemma reset_fold_length:
  "length (fold (\<lambda>i t. toArray Matrix4_identity t (i * 16)) is t) = length t"
  by (induction "is" arbitrary: t) (simp_all add: toArray_length)

lemma reset_fold_nth:
  assumes "length t = 1024" and "n \<le> 64" and "j < n * 16"
  shows "fold (\<lambda>i t. toArray Matrix4_identity t (i * 16)) [0..<n] t ! j = Matrix4_identity ! (j mod 16)"
  using assms(2,3)
proof (induction n)
  case 0
  then show ?case by simp
next
  case (Suc n)
  let ?f = "fold (\<lambda>i t. toArray Matrix4_identity t (i * 16)) [0..<n] t"
  have len: "length ?f = 1024" using assms(1) by (simp add: reset_fold_length)
  have j: "j < 1024" using Suc.prems by simp
  show ?case
  proof (cases "j < n * 16")
    case True
    then have "?f ! j = Matrix4_identity ! (j mod 16)" using Suc.IH Suc.prems by simp
    with True j len show ?thesis by (simp add: toArray_nth)
  next
    case False
    then have "n * 16 \<le> j" "j < n * 16 + 16" using Suc.prems by simp_all
    moreover from this obtain r where r: "j = n * 16 + r" "r < 16"
      by (metis le_Suc_ex nat_add_left_cancel_less)
    moreover have "j mod 16 = j - n * 16" by (simp add: r)
    ultimately show ?thesis using j len by (simp add: toArray_nth)
  qed
qed

lemma new_table_ok: "table_ok (matrices VRMManager_new)"
proof -
  let ?t = "matrices VRMManager_new"
  have eq: "?t = fold (\<lambda>i t. toArray Matrix4_identity t (i * 16)) [0..<64] (replicate (16 * 64) (Fin 0))"
    unfolding VRMManager_new_def resetPose_def resetPose_matrices
    by (simp only: VRMManager.simps)
  have len0: "length (replicate (16 * 64) (Fin 0)) = 1024" by (simp only: length_replicate)
  have len: "length ?t = 1024" unfolding eq by (simp only: reset_fold_length len0)
  have "slot ?t i = Matrix4_identity" if "i < 64" for i
  proof (rule slot_eqI)
    show "(i + 1) * 16 \<le> length ?t" using that len by simp
    show "length Matrix4_identity = 16" by (rule identity_length)
    fix k :: nat assume k: "k < 16"
    have "i * 16 + k < 64 * 16" using that k by simp
    then have "?t ! (i * 16 + k) = Matrix4_identity ! ((i * 16 + k) mod 16)"
      unfolding eq by (intro reset_fold_nth [OF len0]) simp_all
    then show "?t ! (i * 16 + k) = Matrix4_identity ! k" using k by simp
  qed
  then show ?thesis using len by (simp add: table_ok_def)
qed

lemma solve_fold_length:
  "length (snd (fold (solve_bone r) bs st)) = length (snd st)"
  by (induction bs arbitrary: st) (simp_all add: solve_bone_def Let_def toArray_length)

lemma solve_fold_untouched:
  assumes "j < length (snd st)" and "\<forall>b \<in> set bs. j < b * 16 \<or> b * 16 + 16 \<le> j"
  shows "snd (fold (solve_bone r) bs st) ! j = snd st ! j"
  using assms
proof (induction bs arbitrary: st)
  case Nil
  show ?case by simp
next
  case (Cons b bs)
  have len: "j < length (snd (solve_bone r b st))"
    using Cons.prems(1) by (simp add: solve_bone_def Let_def toArray_length)
  have "snd (fold (solve_bone r) bs (solve_bone r b st)) ! j = snd (solve_bone r b st) ! j"
    using Cons.prems(2) by (intro Cons.IH [OF len]) simp
  also have "\<dots> = snd st ! j"
  proof -
    from Cons.prems(2) have "j < b * 16 \<or> b * 16 + 16 \<le> j" by simp
    then have "\<not> (b * 16 \<le> j \<and> j < b * 16 + 16)" by arith
    then show ?thesis using Cons.prems(1) by (auto simp: solve_bone_def Let_def toArray_nth)
  qed
  finally show ?case by simp
qed

lemma solve_fold_slot:
  assumes "length (snd st) = 1024" and "i < 64" and "i \<notin> set bs"
  shows "slot (snd (fold (solve_bone r) bs st)) i = slot (snd st) i"
proof -
  have len: "length (snd (fold (solve_bone r) bs st)) = 1024"
    using assms(1) by (simp add: solve_fold_length)
  have "snd (fold (solve_bone r) bs st) ! (i * 16 + k) = snd st ! (i * 16 + k)" if "k < 16" for k
  proof (rule solve_fold_untouched)
    show "i * 16 + k < length (snd st)" using assms(1,2) that by simp
    show "\<forall>b\<in>set bs. i * 16 + k < b * 16 \<or> b * 16 + 16 \<le> i * 16 + k"
    proof
      fix b assume "b \<in> set bs"
      then have "b \<noteq> i" using assms(3) by auto
      then show "i * 16 + k < b * 16 \<or> b * 16 + 16 \<le> i * 16 + k"
        using that by arith
    qed
  qed
  then show ?thesis using assms(1,2) len
    by (intro nth_equalityI) (simp_all add: slot_def)
qed

lemma solveHierarchy_ok:
  assumes "table_ok (matrices s)"
  shows "table_ok (matrices (solveHierarchy s))"
  using assms by (simp add: table_ok_def solveHierarchy_def solve_fold_length solve_fold_slot)

lemma solveHierarchy_root:
  assumes "length (matrices s) = 1024"
    and "localRotations s 0 = Some (euler (Fin 0) (Fin 0) (Fin 0))"
  shows "slot (matrices (solveHierarchy s)) 0 = Matrix4_identity"
proof -
  let ?st = "solve_bone (localRotations s) 0 (Map.empty, matrices s)"
  have first: "snd ?st = toArray Matrix4_identity (matrices s) 0"
    using assms(2) by (simp add: solve_bone_def HIERARCHY_def pivot_root_identity)
  have len: "length (snd ?st) = 1024" using assms(1) by (simp add: first toArray_length)
  have "slot (snd (fold (solve_bone (localRotations s)) [3, 6, 9, 12, 15, 16, 17, 22] ?st)) 0
          = slot (snd ?st) 0"
    by (rule solve_fold_slot [OF len]) simp_all
  also have "\<dots> = Matrix4_identity"
  proof (rule slot_eqI)
    show "(0 + 1) * 16 \<le> length (snd ?st)" using len by simp
    show "length Matrix4_identity = 16" by (rule identity_length)
    fix k :: nat assume "k < 16"
    then show "snd ?st ! (0 * 16 + k) = Matrix4_identity ! k"
      using assms(1) by (simp add: first toArray_nth)
  qed
  finally show ?thesis by (simp add: solveHierarchy_def solved_bones_def)
qed

lemma update_ok:
  assumes "table_ok (matrices s)"
  shows "table_ok (matrices (snd (update time s)))"
    and "fst (update time s) = matrices (snd (update time s))"
    and "slot (fst (update time s)) 0 = Matrix4_identity"
proof -
  show "table_ok (matrices (snd (update time s)))"
    using assms by (simp add: update_def Let_def solveHierarchy_ok)
  show "fst (update time s) = matrices (snd (update time s))"
    by (simp add: update_def Let_def)
  have "length (matrices s) = 1024" using assms by (simp add: table_ok_def)
  then show "slot (fst (update time s)) 0 = Matrix4_identity"
    by (simp add: update_def Let_def solveHierarchy_root)
qed

lemma vrm_fold_ok:
  "table_ok (matrices s) \<Longrightarrow> table_ok (matrices (fold vrm_step calls s))"
proof (induction calls arbitrary: s)
  case Nil
  then show ?case by simp
next
  case (Cons c calls)
  have "table_ok (matrices (vrm_step c s))"
    using Cons.prems by (cases c) (simp_all add: setLipSync_def update_ok(1))
  then show ?case by (simp add: Cons.IH)
qed

lemma vrm_run_ok: "table_ok (matrices (vrm_run calls))"
  by (simp add: vrm_run_def vrm_fold_ok new_table_ok)

text \<open>
  C8. Every pose-solve tick, whatever calls came before it, returns a table of
  \<open>16 * 64 = 1024\<close> numbers in which every slot outside the solved bones
  \<open>{0, 3, 6, 9, 12, 15, 16, 17, 22}\<close> is the identity matrix, and in which slot 0, the
  root, is the identity matrix.
\<close>

theorem update_unsolved_slots_identity:
  "length (fst (update time (vrm_run calls))) = 16 * 64 \<and>
   (\<forall>i<64. i \<notin> set [0, 3, 6, 9, 12, 15, 16, 17, 22] \<longrightarrow>
      slot (fst (update time (vrm_run calls))) i = Matrix4_identity) \<and>
   slot (fst (update time (vrm_run calls))) 0 = Matrix4_identity"
proof -
  have ok: "table_ok (matrices (vrm_run calls))" by (rule vrm_run_ok)
  from update_ok [OF ok, of time] show ?thesis
    by (simp add: table_ok_def solved_bones_def)
qed

theorem update_unsolved_slots_identity_witness:
  "slot (fst (update (Fin 2) (vrm_run [SetLipSync (Fin 1), Update (Fin 1)]))) 5 = Matrix4_identity \<and>
   slot (fst (update (Fin 2) (vrm_run [SetLipSync (Fin 1), Update (Fin 1)]))) 63 = Matrix4_identity"
proof -
  note t = update_unsolved_slots_identity [of "Fin 2" "[SetLipSync (Fin 1), Update (Fin 1)]"]
  from t have a: "\<forall>i<64. i \<notin> set [0, 3, 6, 9, 12, 15, 16, 17, 22] \<longrightarrow>
      slot (fst (update (Fin 2) (vrm_run [SetLipSync (Fin 1), Update (Fin 1)]))) i = Matrix4_identity"
    by (rule conjunct1 [OF conjunct2])
  have "(5::nat) < 64 \<and> 5 \<notin> set [0, 3, 6, 9, 12, 15, 16, 17, 22::nat]"
    and "(63::nat) < 64 \<and> 63 \<notin> set [0, 3, 6, 9, 12, 15, 16, 17, 22::nat]" by simp_all
  then show ?thesis using a by blast
qed

text \<open>
  C3. After \<open>updateLipSync(level)\<close>, which is \<open>setLipSync(level)\<close> on the pose solver, the
  next call of \<open>update\<close> leaves the jaw, bone 22, with
  the local rotation \<open>(level * 0.5, 0, 0)\<close>: its X component is 0.5 for level 1.0, the
  configured maximum, and 0 for level 0.0.
\<close>

theorem jaw_rotation_follows_lip_sync:
  "localRotations (snd (update time (vrm (updateLipSync level g)))) 22
     = Some (euler (jmul level (Fin 0.5)) (Fin 0) (Fin 0)) \<and>
   localRotations (snd (update time (vrm (updateLipSync (Fin 1.0) g)))) 22
     = Some \<lparr>ex = Fin 0.5, ey = Fin 0, ez = Fin 0\<rparr> \<and>
   localRotations (snd (update time (vrm (updateLipSync (Fin 0.0) g)))) 22
     = Some \<lparr>ex = Fin 0, ey = Fin 0, ez = Fin 0\<rparr>"
  by (simp add: update_def updateLipSync_def setLipSync_def solveHierarchy_def Let_def euler_def)

section \<open>Properties of the loader\<close>

lemma for_each_Inr:
  assumes "for_each body is = Inr vs"
  shows "length vs = length is \<and> (\<forall>k < length is. body (is ! k) = Inr (vs ! k))"
  using assms
proof (induction "is" arbitrary: vs)
  case Nil
  then show ?case by simp
next
  case (Cons i "is")
  from Cons.prems obtain v vs' where v: "body i = Inr v" and vs': "for_each body is = Inr vs'"
    and eq: "vs = v # vs'"
    by (auto split: sum.splits)
  from Cons.IH [OF vs'] show ?case
    by (auto simp: eq v nth_Cons split: nat.splits)
qed

lemma for_each_upt:
  assumes "for_each body [0..<n] = Inr vs"
  shows "length vs = n" and "\<And>k. k < n \<Longrightarrow> body k = Inr (vs ! k)"
  using for_each_Inr [OF assms] by simp_all

lemma detect_keys: "map fst (detectBonePositions points bbox) = bone_ids"
  by (simp add: detectBonePositions_def bone_ids_def Let_def)

lemma addSphere_bone: "tp \<in> set (addSphere b c r d) \<Longrightarrow> bone tp = b"
  by (auto simp: addSphere_def jaw_template_def fan_template_def Let_def split: if_splits)

lemma template_bones:
  "tp \<in> set (generateTemplatePoints bps) \<Longrightarrow> bone tp \<in> set (map fst bps)"
  by (force simp: generateTemplatePoints_def dest: addSphere_bone)

lemma nearest_fold_bone:
  "fst (fold (nearest_body p) tps st) \<in> insert (fst st) (bone ` set tps)"
proof (induction tps arbitrary: st)
  case Nil
  show ?case by simp
next
  case (Cons tp tps)
  have "fst (nearest_body p tp st) \<in> {fst st, bone tp}"
    by (simp add: nearest_body_def Let_def)
  with Cons.IH [of "nearest_body p tp st"] show ?case by auto
qed

lemma bestBone_in_bone_ids: "bestBone (templatePoints normalized) p \<in> set bone_ids"
proof -
  have "bestBone (templatePoints normalized) p \<in> insert 0 (bone ` set (templatePoints normalized))"
    using nearest_fold_bone [of p "templatePoints normalized" "(0, PInf)"]
    by (simp add: bestBone_def)
  moreover have "bone ` set (templatePoints normalized) \<subseteq> set bone_ids"
  proof
    fix b assume "b \<in> bone ` set (templatePoints normalized)"
    then obtain tp where tp: "tp \<in> set (templatePoints normalized)" and b: "b = bone tp" by auto
    from tp have "bone tp \<in> set (map fst (detectBonePositions normalized (computeBoundingBox normalized)))"
      unfolding templatePoints_def Let_def by (rule template_bones)
    then show "b \<in> set bone_ids" by (simp only: detect_keys b)
  qed
  moreover have "0 \<in> set bone_ids" by (simp add: bone_ids_def)
  ultimately show ?thesis by auto
qed

lemma load_Inr:
  assumes "load buffer = Inr data"
  obtains digits dataView rawPositions vs where
    "match_element_vertex (decoded_head buffer) = Some digits"
    "DataView_new buffer (indexOf (decoded_head buffer) (lit ''end_header'') + 10 + 1) = Inr dataView"
    "for_each (read_raw dataView (header_props (decoded_head buffer))) [0..<parseInt digits]
       = Inr rawPositions"
    "for_each (rig_vertex dataView (header_props (decoded_head buffer))
                 (scaleFactor (computeAdaptiveScale (computeBoundingBox rawPositions) (Fin 1.70)))
                 (normalizedPositions rawPositions)
                 (templatePoints (normalizedPositions rawPositions)))
       [0..<parseInt digits] = Inr vs"
    "positions data = map v_position vs"
    "boneIndices data = map v_boneIndices vs"
    "boneWeights data = map v_boneWeights vs"
    "calibration_bbox data = computeBoundingBox rawPositions"
  using assms unfolding load_def Let_def
  by (auto split: option.splits sum.splits)

lemma rig_vertex_Inr:
  assumes "rig_vertex dataView props factor normalized templates i = Inr v"
  shows "v_position v = normalized ! i"
    and "v_boneIndices v = [num (bestBone templates (normalized ! i)), Fin 0, Fin 0, Fin 0]"
    and "v_boneWeights v = [Fin 1, Fin 0, Fin 0, Fin 0]"
  using assms by (auto simp: rig_vertex_def Let_def split: sum.splits)

lemma example_load: "\<exists>data. load example_buffer = Inr data"
  by (simp add: load_def example_buffer_def header_lines_def is_digit_def indexOf_def lit_def
      header_props_def trim_def is_space_def parseInt_def DataView_new_def upt_rec
      read_raw_def rig_vertex_def read_triple_def read_prop_def getFloat32_def
      prop_index_def Let_def)

text \<open>
  C1. Whenever \<open>load\<close> resolves, the point cloud has as many points as the header
  announces, and every point has one entry of bone indices and one of bone weights: the
  indices are \<open>[b, 0, 0, 0]\<close> with \<open>b\<close> one of the eight bones 0, 3, 9, 12, 15, 16, 17,
  22, and the weights are \<open>[1.0, 0, 0, 0]\<close>. No point is left without a bone.
\<close>

theorem load_assigns_one_bone:
  assumes "load buffer = Inr data"
  shows "(\<exists>digits. match_element_vertex (decoded_head buffer) = Some digits \<and>
            length (positions data) = parseInt digits) \<and>
         length (boneIndices data) = length (positions data) \<and>
         length (boneWeights data) = length (positions data) \<and>
         (\<forall>i < length (positions data).
            (\<exists>b \<in> set [0, 3, 9, 12, 15, 16, 17, 22].
               boneIndices data ! i = [num b, Fin 0, Fin 0, Fin 0]) \<and>
            boneWeights data ! i = [Fin 1.0, Fin 0, Fin 0, Fin 0])"
proof -
  from assms obtain digits dataView rawPositions vs where
    m: "match_element_vertex (decoded_head buffer) = Some digits"
    and vs: "for_each (rig_vertex dataView (header_props (decoded_head buffer))
                 (scaleFactor (computeAdaptiveScale (computeBoundingBox rawPositions) (Fin 1.70)))
                 (normalizedPositions rawPositions)
                 (templatePoints (normalizedPositions rawPositions)))
       [0..<parseInt digits] = Inr vs"
    and d: "positions data = map v_position vs" "boneIndices data = map v_boneIndices vs"
      "boneWeights data = map v_boneWeights vs"
    by (rule load_Inr)
  note len = for_each_upt(1) [OF vs]
  have each: "(\<exists>b \<in> set [0, 3, 9, 12, 15, 16, 17, 22].
               boneIndices data ! i = [num b, Fin 0, Fin 0, Fin 0]) \<and>
            boneWeights data ! i = [Fin 1.0, Fin 0, Fin 0, Fin 0]" if "i < parseInt digits" for i
  proof -
    note r = rig_vertex_Inr [OF for_each_upt(2) [OF vs that]]
    have "bestBone (templatePoints (normalizedPositions rawPositions))
            (normalizedPositions rawPositions ! i) \<in> set bone_ids"
      by (rule bestBone_in_bone_ids)
    then show ?thesis using that len r(2,3) unfolding bone_ids_def d by auto
  qed
  show ?thesis using m len each by (simp add: d)
qed


theorem load_assigns_one_bone_witness:
  "\<exists>data. load example_buffer = Inr data \<and>
     length (positions data) = 2 \<and> length (boneIndices data) = 2 \<and>
     length (boneWeights data) = 2 \<and>
     (\<forall>i < 2.
        (\<exists>b \<in> set [0, 3, 9, 12, 15, 16, 17, 22].
           boneIndices data ! i = [num b, Fin 0, Fin 0, Fin 0]) \<and>
        boneWeights data ! i = [Fin 1.0, Fin 0, Fin 0, Fin 0])"
proof -
  obtain data where d: "load example_buffer = Inr data" using example_load by blast
  have m: "match_element_vertex (decoded_head example_buffer) = Some (lit ''2'')"
    by (simp add: example_buffer_def header_lines_def is_digit_def lit_def)
  have "parseInt (lit ''2'') = 2" by (simp add: parseInt_def lit_def)
  with load_assigns_one_bone [OF d] m have "length (positions data) = 2" by auto
  with load_assigns_one_bone [OF d] d show ?thesis by auto
qed

lemma payload_header:
  "header_block (decoded_head payload_buffer) =
     butlast (header_lines [''ply'', ''format binary_little_endian 1.0'',
        ''property float x'', ''property float y'', ''property float z'', ''end_header''])"
  by (simp add: header_block_def payload_buffer_def header_lines_def lit_def indexOf_def)

lemma payload_no_token: "match_element_vertex (header_block (decoded_head payload_buffer)) = None"
  unfolding payload_header by (simp add: header_lines_def lit_def)

lemma payload_load: "map_sum id positions (load payload_buffer) = Inr []"
  by (simp add: load_def payload_buffer_def header_lines_def lit_def is_digit_def indexOf_def
      parseInt_def DataView_new_def Let_def)

lemma payload_loadAssets: "fst (loadAssets ready_stages payload_buffer GVRM_new) = True"
proof -
  have "\<exists>data. load payload_buffer = Inr data"
    by (simp add: load_def payload_buffer_def header_lines_def lit_def is_digit_def indexOf_def
        parseInt_def DataView_new_def Let_def)
  then show ?thesis by (auto simp: loadAssets_def ready_stages_def)
qed

text \<open>
  C5, as the specification states it, fails. The loader does not look for the vertex count
  in the header: it searches the decoded first 5000 bytes of the file, header and
  whatever payload lies within them. In \<open>payload_buffer\<close> the header, up to and including
  \<open>end_header\<close>, has no \<open>element vertex\<close> line, and the bytes after it spell
  \<open>element vertex 0\<close>: \<open>load\<close> takes the count 0 from there and returns an empty point
  set, and \<open>loadAssets\<close> returns \<open>true\<close>.
\<close>

theorem payload_spells_vertex_count:
  "match_element_vertex (header_block (decoded_head payload_buffer)) = None \<and>
   map_sum id positions (load payload_buffer) = Inr [] \<and>
   fst (loadAssets ready_stages payload_buffer GVRM_new) = True"
  using payload_no_token payload_load payload_loadAssets by simp

text \<open>
  C5, as amended. When the text that the loader searches, the decoded first 5000 bytes of
  the file, has no \<open>element vertex <N>\<close> anywhere, the match is \<open>null\<close> and reading its
  group throws: \<open>load\<close> ends with that exception and produces no point set, and
  \<open>loadAssets\<close>, which catches it, returns \<open>false\<close> and leaves the avatar as it was,
  without a viewer.
\<close>

theorem missing_vertex_count_fails:
  assumes "match_element_vertex (decoded_head buffer) = None"
  shows "load buffer = Inl TypeError \<and> loadAssets stages buffer g = (False, g)"
  using assms by (simp add: load_def loadAssets_def)

theorem missing_vertex_count_fails_witness:
  "match_element_vertex (decoded_head headless_buffer) = None \<and>
   load headless_buffer = Inl TypeError \<and>
   loadAssets no_stages headless_buffer GVRM_new = (False, GVRM_new)"
proof -
  have m: "match_element_vertex (decoded_head headless_buffer) = None"
    by (simp add: headless_buffer_def header_lines_def lit_def)
  from missing_vertex_count_fails [OF m, of no_stages GVRM_new] m show ?thesis by simp
qed

section \<open>Properties of the calibration\<close>

lemma Math_min_Fin: "Math_min (Fin a) (Fin b) = Fin (min a b)"
  by (simp add: Math_min_def min_def)

lemma Math_max_Fin: "Math_max (Fin a) (Fin b) = Fin (max a b)"
  by (simp add: Math_max_def max_def)

lemma bbox_fold_vy:
  "vy (fst (fold bbox_body ps mm)) = fold (\<lambda>p m. Math_min m (vy p)) ps (vy (fst mm))"
  "vy (snd (fold bbox_body ps mm)) = fold (\<lambda>p m. Math_max m (vy p)) ps (vy (snd mm))"
  by (induction ps arbitrary: mm) (simp_all add: bbox_body_def Let_def)

lemma min_fold_Fin:
  "map vy ps = map Fin ys \<Longrightarrow>
     fold (\<lambda>p m. Math_min m (vy p)) ps (Fin a) = Fin (fold min ys a)"
proof (induction ps arbitrary: ys a)
  case Nil
  then show ?case by simp
next
  case (Cons p ps)
  then obtain y ys' where ys: "ys = y # ys'" "vy p = Fin y" "map vy ps = map Fin ys'" by auto
  show ?case by (simp add: ys Cons.IH [OF ys(3)] Math_min_Fin min.commute)
qed

lemma max_fold_Fin:
  "map vy ps = map Fin ys \<Longrightarrow>
     fold (\<lambda>p m. Math_max m (vy p)) ps (Fin a) = Fin (fold max ys a)"
proof (induction ps arbitrary: ys a)
  case Nil
  then show ?case by simp
next
  case (Cons p ps)
  then obtain y ys' where ys: "ys = y # ys'" "vy p = Fin y" "map vy ps = map Fin ys'" by auto
  show ?case by (simp add: ys Cons.IH [OF ys(3)] Math_max_Fin max.commute)
qed

lemma bbox_y_finite:
  assumes "map vy ps = map Fin ys" and "ps \<noteq> []"
  shows "vy (bbox_min (computeBoundingBox ps)) = Fin (Min (set ys))"
    and "vy (bbox_max (computeBoundingBox ps)) = Fin (Max (set ys))"
proof -
  from assms obtain p ps' y ys' where eq: "ps = p # ps'" "ys = y # ys'" "vy p = Fin y"
      "map vy ps' = map Fin ys'"
    by (cases ps; cases ys) auto
  have "vy (bbox_min (computeBoundingBox ps)) = fold (\<lambda>p m. Math_min m (vy p)) ps PInf"
    by (simp add: computeBoundingBox_def Let_def bbox_fold_vy)
  also have "\<dots> = fold (\<lambda>p m. Math_min m (vy p)) ps' (Fin y)"
    by (simp add: eq Math_min_def)
  also have "\<dots> = Fin (Min (set ys))"
    by (simp only: min_fold_Fin [OF eq(4)] eq(2) Min.set_eq_fold)
  finally show "vy (bbox_min (computeBoundingBox ps)) = Fin (Min (set ys))" .
  have "vy (bbox_max (computeBoundingBox ps)) = fold (\<lambda>p m. Math_max m (vy p)) ps NInf"
    by (simp add: computeBoundingBox_def Let_def bbox_fold_vy)
  also have "\<dots> = fold (\<lambda>p m. Math_max m (vy p)) ps' (Fin y)"
    by (simp add: eq Math_max_def)
  also have "\<dots> = Fin (Max (set ys))"
    by (simp only: max_fold_Fin [OF eq(4)] eq(2) Max.set_eq_fold)
  finally show "vy (bbox_max (computeBoundingBox ps)) = Fin (Max (set ys))" .
qed

lemma bbox_size_y:
  "vy (bbox_size (computeBoundingBox ps))
     = jsub (vy (bbox_max (computeBoundingBox ps))) (vy (bbox_min (computeBoundingBox ps)))"
  by (simp add: computeBoundingBox_def Let_def)

lemma normalized_y:
  assumes "map vy raw = map Fin ys" and "raw \<noteq> []" and "Min (set ys) < Max (set ys)"
  shows "map vy (normalizedPositions raw)
           = map (\<lambda>y. Fin ((y - Min (set ys)) * (1.70 / (Max (set ys) - Min (set ys))))) ys"
proof -
  have "vy (normalize (computeBoundingBox raw)
              (scaleFactor (computeAdaptiveScale (computeBoundingBox raw) (Fin 1.70))) p)
          = Fin ((y - Min (set ys)) * (1.70 / (Max (set ys) - Min (set ys))))"
    if "vy p = Fin y" for p y
    using assms(3) that
    by (simp add: normalize_def computeAdaptiveScale_def bbox_size_y Let_def
        bbox_y_finite [OF assms(1,2)] jsub_def)
  moreover have "\<forall>i < length raw. vy (raw ! i) = Fin (ys ! i)" "length ys = length raw"
    using assms(1) by (metis length_map nth_map)+
  ultimately show ?thesis
    by (intro nth_equalityI) (simp_all add: normalizedPositions_def Let_def)
qed

lemma scale_cancel: "(d::real) \<noteq> 0 \<Longrightarrow> d * (c / d) = c"
  by simp

text \<open>
  C6. For a point cloud whose heights are the finite numbers \<open>ys\<close>, with the lowest
  below the highest, pass 2 of \<open>load\<close> maps the height \<open>y\<close> to
  \<open>(y - minY) * (1.70 / (maxY - minY))\<close>: a point at the highest raw height lands at
  1.70 and a point at the lowest at 0. In the exact arithmetic of the model these are
  equalities. The example has the heights 0, 0.6, 1.2 and 1.8.
\<close>

theorem calibration_maps_extremes:
  assumes "map vy raw = map Fin ys" and "Min (set ys) < Max (set ys)" and "i < length raw"
  shows "vy (normalizedPositions raw ! i)
           = Fin ((ys ! i - Min (set ys)) * (1.70 / (Max (set ys) - Min (set ys)))) \<and>
         (ys ! i = Max (set ys) \<longrightarrow> vy (normalizedPositions raw ! i) = Fin 1.70) \<and>
         (ys ! i = Min (set ys) \<longrightarrow> vy (normalizedPositions raw ! i) = Fin 0)"
proof -
  have ne: "raw \<noteq> []" using assms(3) by auto
  have len: "length ys = length raw" "length (normalizedPositions raw) = length raw"
    using assms(1) by (metis length_map) (simp add: normalizedPositions_def Let_def)
  have "vy (normalizedPositions raw ! i) = map vy (normalizedPositions raw) ! i"
    using assms(3) len by simp
  also have "\<dots> = Fin ((ys ! i - Min (set ys)) * (1.70 / (Max (set ys) - Min (set ys))))"
    using assms(3) len by (simp only: normalized_y [OF assms(1) ne assms(2)] nth_map)
  finally have eq: "vy (normalizedPositions raw ! i)
           = Fin ((ys ! i - Min (set ys)) * (1.70 / (Max (set ys) - Min (set ys))))" .
  have top: "(Max (set ys) - Min (set ys)) * (1.70 / (Max (set ys) - Min (set ys))) = 1.70"
    using assms(2) by (intro scale_cancel) simp
  have bottom: "(Min (set ys) - Min (set ys)) * (1.70 / (Max (set ys) - Min (set ys))) = 0"
    by simp
  show ?thesis
  proof (intro conjI impI)
    show "vy (normalizedPositions raw ! i)
           = Fin ((ys ! i - Min (set ys)) * (1.70 / (Max (set ys) - Min (set ys))))" by (rule eq)
    assume "ys ! i = Max (set ys)"
    then show "vy (normalizedPositions raw ! i) = Fin 1.70" by (simp only: eq top)
  next
    assume "ys ! i = Min (set ys)"
    then show "vy (normalizedPositions raw ! i) = Fin 0" by (simp only: eq bottom)
  qed
qed

theorem calibration_maps_extremes_witness:
  "vy (normalizedPositions example_cloud ! 3) = Fin 1.70 \<and>
   vy (normalizedPositions example_cloud ! 0) = Fin 0 \<and>
   vy (normalizedPositions example_cloud ! 1) = Fin ((0.6 - 0) * (1.70 / (1.8 - 0)))"
proof -
  have ys: "map vy example_cloud = map Fin [0, 0.6, 1.2, 1.8]"
    by (simp add: example_cloud_def vec3_def)
  have mm: "Min (set [0, 0.6, 1.2, 1.8::real]) = 0" "Max (set [0, 0.6, 1.2, 1.8::real]) = 1.8"
    by simp_all
  have lt: "Min (set [0, 0.6, 1.2, 1.8::real]) < Max (set [0, 0.6, 1.2, 1.8::real])"
    by (simp only: mm)
  have len: "3 < length example_cloud" "0 < length example_cloud" "1 < length example_cloud"
    by (simp_all add: example_cloud_def)
  from calibration_maps_extremes [OF ys lt len(1)] calibration_maps_extremes [OF ys lt len(2)]
    calibration_maps_extremes [OF ys lt len(3)]
  show ?thesis by (simp add: mm)
qed

text \<open>
  C7. For a cloud that is not degenerate (finite heights, the lowest below the highest),
  the bounding box of the normalized positions has the height 1.70, the target, so
  calibrating the normalized positions again gives the scale factor 1. In the exact
  arithmetic of the model both are equalities.
\<close>

theorem calibration_idempotent:
  assumes "map vy raw = map Fin ys" and "raw \<noteq> []" and "Min (set ys) < Max (set ys)"
  shows "vy (bbox_size (computeBoundingBox (normalizedPositions raw))) = Fin 1.70 \<and>
         scaleFactor (computeAdaptiveScale (computeBoundingBox (normalizedPositions raw)) (Fin 1.70))
           = Fin 1"
proof -
  define lo hi where "lo = Min (set ys)" and "hi = Max (set ys)"
  define k :: real where "k = 1.70 / (hi - lo)"
  define f where "f = (\<lambda>y. (y - lo) * k)"
  have lt: "lo < hi" using assms(3) by (simp add: lo_def hi_def)
  have k: "0 \<le> k" "(hi - lo) * k = 1.70"
    using lt unfolding k_def by (simp, intro scale_cancel, simp)
  have "mono f" using k(1) by (auto simp: f_def mono_def intro!: mult_right_mono)
  have ys: "ys \<noteq> []" using assms(1,2) by auto
  have norm: "map vy (normalizedPositions raw) = map Fin (map f ys)"
    unfolding f_def k_def lo_def hi_def by (simp only: normalized_y [OF assms] map_map o_def)
  have ne: "normalizedPositions raw \<noteq> []"
    using assms(2) by (simp add: normalizedPositions_def Let_def)
  have "Min (set (map f ys)) = f lo"
    using mono_Min_commute [OF \<open>mono f\<close>, of "set ys"] ys by (simp add: lo_def)
  moreover have "Max (set (map f ys)) = f hi"
    using mono_Max_commute [OF \<open>mono f\<close>, of "set ys"] ys by (simp add: hi_def)
  moreover have "f lo = 0" "f hi = 1.70" using k(2) by (simp_all add: f_def)
  ultimately have "vy (bbox_min (computeBoundingBox (normalizedPositions raw))) = Fin 0"
    "vy (bbox_max (computeBoundingBox (normalizedPositions raw))) = Fin 1.70"
    using bbox_y_finite [OF norm ne] by simp_all
  then show ?thesis
    by (simp add: computeAdaptiveScale_def bbox_size_y jsub_def)
qed

theorem calibration_idempotent_witness:
  "vy (bbox_size (computeBoundingBox (normalizedPositions example_cloud))) = Fin 1.70 \<and>
   scaleFactor (computeAdaptiveScale (computeBoundingBox (normalizedPositions example_cloud))
                  (Fin 1.70)) = Fin 1"
proof -
  have ys: "map vy example_cloud = map Fin [0, 0.6, 1.2, 1.8]"
    by (simp add: example_cloud_def vec3_def)
  have mm: "Min (set [0, 0.6, 1.2, 1.8::real]) = 0" "Max (set [0, 0.6, 1.2, 1.8::real]) = 1.8"
    by simp_all
  have lt: "Min (set [0, 0.6, 1.2, 1.8::real]) < Max (set [0, 0.6, 1.2, 1.8::real])"
    by (simp only: mm)
  have ne: "example_cloud \<noteq> []" by (simp add: example_cloud_def)
  from calibration_idempotent [OF ys ne lt] show ?thesis .
qed

section \<open>Properties of the bone detection\<close>

lemma isFinite_iff: "isFinite v \<longleftrightarrow> (\<exists>a. v = Fin a)"
  by (cases v) simp_all

lemma finite3_iff: "finite3 v \<longleftrightarrow> (\<exists>a b c. v = vec3 a b c)"
proof
  assume "finite3 v"
  then obtain a b c where "vx v = Fin a" "vy v = Fin b" "vz v = Fin c"
    by (auto simp: finite3_def isFinite_iff)
  then have "v = vec3 a b c" by (simp add: vec3_def)
  then show "\<exists>a b c. v = vec3 a b c" by blast
next
  assume "\<exists>a b c. v = vec3 a b c"
  then show "finite3 v" by (auto simp: finite3_def vec3_def)
qed

lemma sum_fold_finite:
  assumes "\<forall>p \<in> set ps. isFinite (f p)" and "isFinite acc"
  shows "isFinite (fold (\<lambda>p s. jadd s (f p)) ps acc)"
  using assms
proof (induction ps arbitrary: acc)
  case Nil
  then show ?case by simp
next
  case (Cons p ps)
  from Cons.prems have "isFinite (jadd acc (f p))" by (auto simp: isFinite_iff)
  with Cons show ?case by simp
qed

lemma sum_fold_nonneg:
  assumes "\<forall>p \<in> set ps. \<exists>a\<ge>0. g p = Fin a" and "0 \<le> a0"
  shows "\<exists>r\<ge>0. fold (\<lambda>p s. jadd s (g p)) ps (Fin a0) = Fin r"
  using assms
proof (induction ps arbitrary: a0)
  case Nil
  then show ?case by simp
next
  case (Cons p ps)
  from Cons.prems obtain a where a: "0 \<le> a" "g p = Fin a" by auto
  have "0 \<le> a0 + a" using a(1) Cons.prems(2) by simp
  with Cons.IH [of "a0 + a"] Cons.prems(1) show ?case by (simp add: a(2))
qed

lemma vadd_fold_finite:
  assumes "\<forall>p \<in> set ps. finite3 p" and "finite3 acc"
  shows "finite3 (fold (\<lambda>p acc. vadd acc p) ps acc)"
  using assms
proof (induction ps arbitrary: acc)
  case Nil
  then show ?case by simp
next
  case (Cons p ps)
  from Cons.prems have "finite3 (vadd acc p)"
    by (auto simp: finite3_def vadd_def isFinite_iff)
  with Cons show ?case by simp
qed

lemma computeCentroid_finite:
  assumes "\<forall>p \<in> set ps. finite3 p"
  shows "finite3 (computeCentroid ps)"
proof (cases "ps = []")
  case True
  then show ?thesis by (simp add: computeCentroid_def finite3_def vec3_def)
next
  case False
  have "finite3 (fold (\<lambda>p acc. vadd acc p) ps (vec3 0 0 0))"
    using assms by (intro vadd_fold_finite) (simp_all add: finite3_def vec3_def)
  then show ?thesis using False
    by (auto simp: computeCentroid_def divideScalar_def num_def finite3_def Let_def isFinite_iff)
qed

lemma computeStdDev_finite:
  assumes "\<forall>p \<in> set ps. isFinite (axis p)"
  shows "\<exists>r\<ge>0. computeStdDev ps axis = Fin r"
proof (cases "ps = []")
  case True
  then have "computeStdDev ps axis = Fin 0.1" by (simp add: computeStdDev_def)
  moreover have "(0::real) \<le> 0.1" by simp
  ultimately show ?thesis by blast
next
  case False
  then have n: "0 < real (length ps)" by simp
  have "isFinite (fold (\<lambda>p s. jadd s (axis p)) ps (Fin 0))"
    using assms by (intro sum_fold_finite) simp_all
  then obtain total where total: "fold (\<lambda>p s. jadd s (axis p)) ps (Fin 0) = Fin total"
    by (auto simp: isFinite_iff)
  define mean where "mean = jdiv (Fin total) (num (length ps))"
  have mean: "mean = Fin (total / real (length ps))" using n by (simp add: mean_def num_def)
  have "\<forall>p \<in> set ps. \<exists>a\<ge>0. sq (jsub (axis p) mean) = Fin a"
  proof
    fix p assume "p \<in> set ps"
    with assms obtain a where "axis p = Fin a" by (auto simp: isFinite_iff)
    then have "sq (jsub (axis p) mean) = Fin ((a - total / real (length ps)) * (a - total / real (length ps)))"
      by (simp add: sq_def jsub_def mean)
    then show "\<exists>a\<ge>0. sq (jsub (axis p) mean) = Fin a" by simp
  qed
  then obtain r where r: "0 \<le> r"
      "fold (\<lambda>p s. jadd s (sq (jsub (axis p) mean))) ps (Fin 0) = Fin r"
    using sum_fold_nonneg [of ps "\<lambda>p. sq (jsub (axis p) mean)" 0] by auto
  have "computeStdDev ps axis = Math_sqrt (jdiv (Fin r) (num (length ps)))"
    using False by (simp add: computeStdDev_def Let_def total mean_def [symmetric] r(2))
  also have "\<dots> = Fin (sqrt (r / real (length ps)))"
    using n r(1) by (simp add: num_def not_less)
  finally show ?thesis using r(1) by auto
qed

lemma getPointsInRange_finite:
  assumes "\<forall>p \<in> set ps. selectable p"
  shows "\<forall>p \<in> set (getPointsInRange ps lo hi). finite3 p"
proof
  fix p assume "p \<in> set (getPointsInRange ps lo hi)"
  then have "p \<in> set ps" "jle lo (vy p)" by (simp_all add: getPointsInRange_def)
  moreover from this have "\<not> isNaN (vy p)" by (cases "vy p"; cases lo) simp_all
  ultimately show "finite3 p" using assms by (auto simp: selectable_def)
qed

lemma jawRegionPoints_finite:
  assumes "\<forall>p \<in> set ps. selectable p"
  shows "\<forall>p \<in> set (jawRegionPoints ps c). finite3 p"
proof
  fix p assume "p \<in> set (jawRegionPoints ps c)"
  then have "p \<in> set ps" "jle (vy c) (vy p)" by (simp_all add: jawRegionPoints_def Let_def)
  moreover from this have "\<not> isNaN (vy p)" by (cases "vy p"; cases "vy c") simp_all
  ultimately show "finite3 p" using assms by (auto simp: selectable_def)
qed

lemma set_insert_by: "set (insert_by cmp x ys) = insert x (set ys)"
  by (induction ys) auto

lemma set_sort_by: "set (sort_by cmp xs) = set xs"
  by (induction xs) (simp_all add: sort_by_def set_insert_by)

lemma band_bone_finite:
  assumes "\<forall>p \<in> set ps. selectable p" and "0 < c"
  shows "finite3 (position (band_bone ps h lo hi c))"
    and "\<exists>r\<ge>c. radius (band_bone ps h lo hi c) = Fin r"
proof -
  let ?band = "getPointsInRange ps (jmul (Fin lo) h) (jmul (Fin hi) h)"
  have fin: "\<forall>p \<in> set ?band. finite3 p" using assms(1) by (rule getPointsInRange_finite)
  show "finite3 (position (band_bone ps h lo hi c))"
    using computeCentroid_finite [OF fin] by (simp add: band_bone_def Let_def)
  from fin have "\<forall>p \<in> set ?band. isFinite (vx p)" by (simp add: finite3_def)
  then obtain r where "0 \<le> r" "computeStdDev ?band vx = Fin r"
    using computeStdDev_finite by blast
  then have "radius (band_bone ps h lo hi c) = Fin (max r c)"
    by (simp add: band_bone_def Let_def Math_max_def max_def)
  then show "\<exists>r\<ge>c. radius (band_bone ps h lo hi c) = Fin r" by auto
qed

lemma detectJaw_finite:
  assumes "\<forall>p \<in> set ps. selectable p" and "finite3 c"
  shows "finite3 (position (detectJaw ps c))" and "radius (detectJaw ps c) = Fin 0.04"
proof -
  have "set (jawCandidates ps c) \<subseteq> set (jawRegionPoints ps c)"
    using set_take_subset [of _ "sort_by (\<lambda>a b. jsub (vy a) (vy b)) (jawRegionPoints ps c)"]
    by (simp add: jawCandidates_def Let_def set_sort_by)
  then have "\<forall>p \<in> set (jawCandidates ps c). finite3 p"
    using jawRegionPoints_finite [OF assms(1), of c] by blast
  then have "finite3 (computeCentroid (jawCandidates ps c))" by (rule computeCentroid_finite)
  moreover have "finite3 \<lparr>vx = vx c, vy = jadd (vy c) (Fin 0.05), vz = jadd (vz c) (Fin 0.08)\<rparr>"
    using assms(2) by (auto simp: finite3_def isFinite_iff)
  ultimately show "finite3 (position (detectJaw ps c))"
    by (simp add: detectJaw_def Let_def)
  show "radius (detectJaw ps c) = Fin 0.04" by (simp add: detectJaw_def Let_def)
qed

lemma shoulders_finite:
  assumes "\<forall>p \<in> set ps. selectable p"
  shows "finite3 (computeCentroid (leftShoulderPoints ps h))"
    and "finite3 (computeCentroid (rightShoulderPoints ps h))"
proof -
  have fin: "\<forall>p \<in> set (sortedByX ps h). finite3 p"
    using getPointsInRange_finite [OF assms]
    by (simp add: sortedByX_def shoulderPoints_def set_sort_by)
  have "set (leftShoulderPoints ps h) \<subseteq> set (sortedByX ps h)"
    using set_drop_subset [of _ "sortedByX ps h"] by (simp add: leftShoulderPoints_def Let_def)
  with fin show "finite3 (computeCentroid (leftShoulderPoints ps h))"
    by (intro computeCentroid_finite) blast
  have "set (rightShoulderPoints ps h) \<subseteq> set (sortedByX ps h)"
    using set_take_subset [of _ "sortedByX ps h"] by (simp add: rightShoulderPoints_def Let_def)
  with fin show "finite3 (computeCentroid (rightShoulderPoints ps h))"
    by (intro computeCentroid_finite) blast
qed

lemma detectBonePositions_table:
  "detectBonePositions ps bbox =
     (let h = vy (bbox_size bbox);
          chest = band_bone ps h 0.75 0.88 0.15;
          neck = band_bone ps h 0.88 0.93 0.06
      in [(0, band_bone ps h 0.50 0.65 0.12),
          (3, band_bone ps h 0.60 0.75 0.14),
          (9, chest),
          (12, neck),
          (15, band_bone ps h 0.90 1.0 0.10),
          (16, \<lparr>position = computeCentroid (leftShoulderPoints ps (vy (position chest))),
                 radius = Fin 0.06\<rparr>),
          (17, \<lparr>position = computeCentroid (rightShoulderPoints ps (vy (position chest))),
                 radius = Fin 0.06\<rparr>),
          (22, detectJaw ps (position neck))])"
  by (simp add: detectBonePositions_def Let_def)

lemma unbounded_normalized:
  "normalizedPositions unbounded_cloud =
     [\<lparr>vx = NaN, vy = Fin 0, vz = Fin 0\<rparr>, \<lparr>vx = NaN, vy = Fin 1.7, vz = Fin 0\<rparr>]"
  by (simp add: normalizedPositions_def unbounded_cloud_def computeBoundingBox_def bbox_body_def
      computeAdaptiveScale_def normalize_def Let_def Math_min_def Math_max_def jsub_def)

lemma unbounded_head:
  "map_of (detectBonePositions
             [\<lparr>vx = NaN, vy = Fin 0, vz = Fin 0\<rparr>, \<lparr>vx = NaN, vy = Fin 1.7, vz = Fin 0\<rparr>]
             (computeBoundingBox
                [\<lparr>vx = NaN, vy = Fin 0, vz = Fin 0\<rparr>, \<lparr>vx = NaN, vy = Fin 1.7, vz = Fin 0\<rparr>])) 15
     = Some \<lparr>position = \<lparr>vx = NaN, vy = Fin 1.7, vz = Fin 0\<rparr>, radius = NaN\<rparr>"
proof -
  have h: "vy (bbox_size (computeBoundingBox
             [\<lparr>vx = NaN, vy = Fin 0, vz = Fin 0\<rparr>, \<lparr>vx = NaN, vy = Fin 1.7, vz = Fin 0\<rparr>])) = Fin 1.7"
    by (simp add: computeBoundingBox_def bbox_body_def Let_def Math_min_def Math_max_def jsub_def)
  show ?thesis
    unfolding detectBonePositions_table Let_def h
    by (simp add: band_bone_def getPointsInRange_def computeCentroid_def computeStdDev_def
        vec3_def vadd_def divideScalar_def num_def sq_def jsub_def Math_max_def Let_def)
qed

lemma overflow_head:
  "map_of (detectBonePositions overflow_cells (computeBoundingBox overflow_cells)) 15
     = Some \<lparr>position = \<lparr>vx = PInf, vy = Fin 1.7, vz = Fin 0\<rparr>, radius = NaN\<rparr>"
proof -
  have h: "vy (bbox_size (computeBoundingBox overflow_cells)) = Fin 1.7"
    by (simp add: overflow_cells_def computeBoundingBox_def bbox_body_def Let_def Math_min_def
        Math_max_def jsub_def)
  show ?thesis
    unfolding detectBonePositions_table Let_def h
    by (simp add: overflow_cells_def band_bone_def getPointsInRange_def computeCentroid_def
        computeStdDev_def vec3_def vadd_def divideScalar_def num_def sq_def jsub_def Math_max_def
        Let_def signed_inf_def)
qed

text \<open>
  C10, as the specification states it, fails: bone detection is not total on every
  normalized point cloud. The raw cloud \<open>unbounded_cloud\<close> has the X coordinates
  \<open>-Infinity\<close> and \<open>Infinity\<close>; the centre of its bounding box is NaN in X, and so is the X
  of every normalized point. The head band selects the upper point: the centroid of the
  head is NaN in X, its standard deviation is NaN, and \<open>Math.max(NaN, 0.10)\<close> is NaN, so
  the head has no positive radius. The same happens on \<open>overflow_cells\<close>, the cells that
  normalization leaves when finite raw coordinates overflow binary32: the centroid of the
  head is \<open>Infinity\<close> in X and its radius is NaN.
\<close>

theorem bone_detection_nan_radius:
  "map_of (detectBonePositions (normalizedPositions unbounded_cloud)
             (computeBoundingBox (normalizedPositions unbounded_cloud))) 15
     = Some \<lparr>position = \<lparr>vx = NaN, vy = Fin 1.7, vz = Fin 0\<rparr>, radius = NaN\<rparr> \<and>
   map_of (detectBonePositions overflow_cells (computeBoundingBox overflow_cells)) 15
     = Some \<lparr>position = \<lparr>vx = PInf, vy = Fin 1.7, vz = Fin 0\<rparr>, radius = NaN\<rparr>"
  unfolding unbounded_normalized using unbounded_head overflow_head by (rule conjI)

text \<open>
  C10, as amended. Bone detection is total on every point cloud in which each point has
  three finite coordinates or a height that is NaN (such a point is in no height band):
  the cells that normalization leaves unless a raw coordinate is NaN or infinite or a
  product overflows binary32. The cloud of a raw cloud of zero height is one of them,
  every height in it is NaN. For such a cloud, also one whose height bands select no
  point, and for every bounding box, \<open>detectBonePositions\<close> returns the eight bones 0, 3,
  9, 12, 15, 16, 17, 22, each with a centroid of three finite numbers and a finite
  radius: at least 0.12 for the hips, 0.14 for spine1, 0.15 for the chest, 0.06 for the
  neck, 0.10 for the head, and exactly 0.06 for the shoulders and 0.04 for the jaw. An
  empty band has the centroid \<open>(0, 0, 0)\<close> and the standard deviation 0.1: nothing is
  divided by zero.
\<close>

theorem bone_detection_total_on_finite_cells:
  assumes "\<forall>p \<in> set points.
             isNaN (vy p) \<or> (isFinite (vx p) \<and> isFinite (vy p) \<and> isFinite (vz p))"
  shows "computeCentroid [] = vec3 0 0 0 \<and> computeStdDev [] axis = Fin 0.1 \<and>
    (\<exists>hips spine1 chest neck head lshoulder rshoulder jaw.
       detectBonePositions points bbox =
         [(0, hips), (3, spine1), (9, chest), (12, neck), (15, head),
          (16, lshoulder), (17, rshoulder), (22, jaw)] \<and>
       finite3 (position hips) \<and> (\<exists>r\<ge>0.12. radius hips = Fin r) \<and>
       finite3 (position spine1) \<and> (\<exists>r\<ge>0.14. radius spine1 = Fin r) \<and>
       finite3 (position chest) \<and> (\<exists>r\<ge>0.15. radius chest = Fin r) \<and>
       finite3 (position neck) \<and> (\<exists>r\<ge>0.06. radius neck = Fin r) \<and>
       finite3 (position head) \<and> (\<exists>r\<ge>0.10. radius head = Fin r) \<and>
       finite3 (position lshoulder) \<and> radius lshoulder = Fin 0.06 \<and>
       finite3 (position rshoulder) \<and> radius rshoulder = Fin 0.06 \<and>
       finite3 (position jaw) \<and> radius jaw = Fin 0.04)"
proof -
  let ?ps = "points"
  have sel: "\<forall>p \<in> set ?ps. selectable p" using assms by (simp add: selectable_def finite3_def)
  note band = band_bone_finite [OF sel]
  have neck: "finite3 (position (band_bone ?ps (vy (bbox_size bbox)) 0.88 0.93 0.06))"
    by (rule band(1)) simp
  define h where "h = vy (bbox_size bbox)"
  define chest where "chest = band_bone ?ps h 0.75 0.88 0.15"
  define neck where "neck = band_bone ?ps h 0.88 0.93 0.06"
  have neck_fin: "finite3 (position neck)" unfolding neck_def by (rule band(1)) simp
  have c1: "computeCentroid [] = vec3 0 0 0" by (simp add: computeCentroid_def)
  have c2: "computeStdDev [] axis = Fin 0.1" by (simp add: computeStdDev_def)
  have main:
    "detectBonePositions ?ps bbox =
       [(0, band_bone ?ps h 0.50 0.65 0.12), (3, band_bone ?ps h 0.60 0.75 0.14), (9, chest),
        (12, neck), (15, band_bone ?ps h 0.90 1.0 0.10),
        (16, \<lparr>position = computeCentroid (leftShoulderPoints ?ps (vy (position chest))),
               radius = Fin 0.06\<rparr>),
        (17, \<lparr>position = computeCentroid (rightShoulderPoints ?ps (vy (position chest))),
               radius = Fin 0.06\<rparr>),
        (22, detectJaw ?ps (position neck))] \<and>
     finite3 (position (band_bone ?ps h 0.50 0.65 0.12)) \<and>
     (\<exists>r\<ge>0.12. radius (band_bone ?ps h 0.50 0.65 0.12) = Fin r) \<and>
     finite3 (position (band_bone ?ps h 0.60 0.75 0.14)) \<and>
     (\<exists>r\<ge>0.14. radius (band_bone ?ps h 0.60 0.75 0.14) = Fin r) \<and>
     finite3 (position chest) \<and> (\<exists>r\<ge>0.15. radius chest = Fin r) \<and>
     finite3 (position neck) \<and> (\<exists>r\<ge>0.06. radius neck = Fin r) \<and>
     finite3 (position (band_bone ?ps h 0.90 1.0 0.10)) \<and>
     (\<exists>r\<ge>0.10. radius (band_bone ?ps h 0.90 1.0 0.10) = Fin r) \<and>
     finite3 (position \<lparr>position = computeCentroid (leftShoulderPoints ?ps (vy (position chest))),
               radius = Fin 0.06\<rparr>) \<and>
     radius \<lparr>position = computeCentroid (leftShoulderPoints ?ps (vy (position chest))),
               radius = Fin 0.06\<rparr> = Fin 0.06 \<and>
     finite3 (position \<lparr>position = computeCentroid (rightShoulderPoints ?ps (vy (position chest))),
               radius = Fin 0.06\<rparr>) \<and>
     radius \<lparr>position = computeCentroid (rightShoulderPoints ?ps (vy (position chest))),
               radius = Fin 0.06\<rparr> = Fin 0.06 \<and>
     finite3 (position (detectJaw ?ps (position neck))) \<and>
     radius (detectJaw ?ps (position neck)) = Fin 0.04"
  proof (intro conjI)
    show "detectBonePositions ?ps bbox =
       [(0, band_bone ?ps h 0.50 0.65 0.12), (3, band_bone ?ps h 0.60 0.75 0.14), (9, chest),
        (12, neck), (15, band_bone ?ps h 0.90 1.0 0.10),
        (16, \<lparr>position = computeCentroid (leftShoulderPoints ?ps (vy (position chest))),
               radius = Fin 0.06\<rparr>),
        (17, \<lparr>position = computeCentroid (rightShoulderPoints ?ps (vy (position chest))),
               radius = Fin 0.06\<rparr>),
        (22, detectJaw ?ps (position neck))]"
      unfolding detectBonePositions_table Let_def h_def chest_def neck_def by (rule refl)
    show "finite3 (position (band_bone ?ps h 0.50 0.65 0.12))" by (rule band(1)) simp
    show "\<exists>r\<ge>0.12. radius (band_bone ?ps h 0.50 0.65 0.12) = Fin r" by (rule band(2)) simp
    show "finite3 (position (band_bone ?ps h 0.60 0.75 0.14))" by (rule band(1)) simp
    show "\<exists>r\<ge>0.14. radius (band_bone ?ps h 0.60 0.75 0.14) = Fin r" by (rule band(2)) simp
    show "finite3 (position chest)" unfolding chest_def by (rule band(1)) simp
    show "\<exists>r\<ge>0.15. radius chest = Fin r" unfolding chest_def by (rule band(2)) simp
    show "finite3 (position neck)" by (rule neck_fin)
    show "\<exists>r\<ge>0.06. radius neck = Fin r" unfolding neck_def by (rule band(2)) simp
    show "finite3 (position (band_bone ?ps h 0.90 1.0 0.10))" by (rule band(1)) simp
    show "\<exists>r\<ge>0.10. radius (band_bone ?ps h 0.90 1.0 0.10) = Fin r" by (rule band(2)) simp
    show "finite3 (position (detectJaw ?ps (position neck)))"
      by (rule detectJaw_finite(1) [OF sel neck_fin])
    show "radius (detectJaw ?ps (position neck)) = Fin 0.04"
      by (rule detectJaw_finite(2) [OF sel neck_fin])
  qed (simp_all only: BonePosition.simps shoulders_finite [OF sel])
  show ?thesis
    apply (intro conjI)
      apply (rule c1)
     apply (rule c2)
    apply (rule exI [of _ "band_bone ?ps h 0.50 0.65 0.12"])
    apply (rule exI [of _ "band_bone ?ps h 0.60 0.75 0.14"])
    apply (rule exI [of _ chest])
    apply (rule exI [of _ neck])
    apply (rule exI [of _ "band_bone ?ps h 0.90 1.0 0.10"])
    apply (rule exI [of _ "\<lparr>position = computeCentroid (leftShoulderPoints ?ps (vy (position chest))),
               radius = Fin 0.06\<rparr>"])
    apply (rule exI [of _ "\<lparr>position = computeCentroid (rightShoulderPoints ?ps (vy (position chest))),
               radius = Fin 0.06\<rparr>"])
    apply (rule exI [of _ "detectJaw ?ps (position neck)"])
    apply (rule main)
    done
qed

lemma flat_normalized:
  "normalizedPositions flat_cloud =
     [\<lparr>vx = NInf, vy = NaN, vz = NaN\<rparr>, \<lparr>vx = PInf, vy = NaN, vz = NaN\<rparr>]"
  by (simp add: normalizedPositions_def flat_cloud_def computeBoundingBox_def bbox_body_def
      computeAdaptiveScale_def normalize_def Let_def Math_min_def Math_max_def jsub_def vec3_def
      signed_inf_def)

theorem bone_detection_total_on_finite_cells_witness:
  "normalizedPositions flat_cloud =
     [\<lparr>vx = NInf, vy = NaN, vz = NaN\<rparr>, \<lparr>vx = PInf, vy = NaN, vz = NaN\<rparr>] \<and>
   list_all selectable (normalizedPositions flat_cloud) \<and>
   (computeCentroid [] = vec3 0 0 0 \<and> computeStdDev [] vx = Fin 0.1 \<and>
    (\<exists>hips spine1 chest neck head lshoulder rshoulder jaw.
       detectBonePositions (normalizedPositions flat_cloud)
           (computeBoundingBox (normalizedPositions flat_cloud)) =
         [(0, hips), (3, spine1), (9, chest), (12, neck), (15, head),
          (16, lshoulder), (17, rshoulder), (22, jaw)] \<and>
       finite3 (position hips) \<and> (\<exists>r\<ge>0.12. radius hips = Fin r) \<and>
       finite3 (position spine1) \<and> (\<exists>r\<ge>0.14. radius spine1 = Fin r) \<and>
       finite3 (position chest) \<and> (\<exists>r\<ge>0.15. radius chest = Fin r) \<and>
       finite3 (position neck) \<and> (\<exists>r\<ge>0.06. radius neck = Fin r) \<and>
       finite3 (position head) \<and> (\<exists>r\<ge>0.10. radius head = Fin r) \<and>
       finite3 (position lshoulder) \<and> radius lshoulder = Fin 0.06 \<and>
       finite3 (position rshoulder) \<and> radius rshoulder = Fin 0.06 \<and>
       finite3 (position jaw) \<and> radius jaw = Fin 0.04)) \<and>
   list_all finite3 tie_cloud \<and>
   (computeCentroid [] = vec3 0 0 0 \<and> computeStdDev [] vx = Fin 0.1 \<and>
    (\<exists>hips spine1 chest neck head lshoulder rshoulder jaw.
       detectBonePositions tie_cloud
           (computeBoundingBox tie_cloud) =
         [(0, hips), (3, spine1), (9, chest), (12, neck), (15, head),
          (16, lshoulder), (17, rshoulder), (22, jaw)] \<and>
       finite3 (position hips) \<and> (\<exists>r\<ge>0.12. radius hips = Fin r) \<and>
       finite3 (position spine1) \<and> (\<exists>r\<ge>0.14. radius spine1 = Fin r) \<and>
       finite3 (position chest) \<and> (\<exists>r\<ge>0.15. radius chest = Fin r) \<and>
       finite3 (position neck) \<and> (\<exists>r\<ge>0.06. radius neck = Fin r) \<and>
       finite3 (position head) \<and> (\<exists>r\<ge>0.10. radius head = Fin r) \<and>
       finite3 (position lshoulder) \<and> radius lshoulder = Fin 0.06 \<and>
       finite3 (position rshoulder) \<and> radius rshoulder = Fin 0.06 \<and>
       finite3 (position jaw) \<and> radius jaw = Fin 0.04))"
proof -
  have f: "\<forall>p \<in> set (normalizedPositions flat_cloud).
             isNaN (vy p) \<or> (isFinite (vx p) \<and> isFinite (vy p) \<and> isFinite (vz p))"
    unfolding flat_normalized by simp
  have t: "\<forall>p \<in> set tie_cloud.
             isNaN (vy p) \<or> (isFinite (vx p) \<and> isFinite (vy p) \<and> isFinite (vz p))"
    by (simp add: tie_cloud_def vec3_def)
  have "list_all selectable (normalizedPositions flat_cloud)"
    unfolding flat_normalized by (simp add: selectable_def)
  moreover have "list_all finite3 tie_cloud"
    by (simp add: tie_cloud_def vec3_def finite3_def)
  ultimately have "list_all selectable (normalizedPositions flat_cloud)" "list_all finite3 tie_cloud"
    by blast+
  note s = this
  note a = bone_detection_total_on_finite_cells
      [where axis = vx and bbox = "computeBoundingBox (normalizedPositions flat_cloud)", OF f]
  note b = bone_detection_total_on_finite_cells
      [where axis = vx and bbox = "computeBoundingBox tie_cloud", OF t]
  show ?thesis
    by (rule conjI [OF flat_normalized conjI [OF s(1) conjI [OF a conjI [OF s(2) b]]]])
qed

section \<open>The order of the points\<close>


















lemma jlt_asym: "jlt a b \<Longrightarrow> \<not> jlt b a"
  by (cases a; cases b) simp_all




































end
